theory Spec2Isabelle
  imports Complex_Main "HOL-Library.Monad_Syntax" "HOL-Library.Log_Nat"
begin

section \<open>Values, shared storage and environments\<close>

text \<open>
  Every Python object of the interpreter lives in a store and is named by its address:
  \<^item> the \<open>Value\<close> objects (\<open>objects\<close>), one constructor per subclass of \<open>Value\<close>;
  \<^item> the \<open>SharedVectorData\<close>, \<open>SharedMapData\<close> and \<open>SharedSetData\<close> objects
    (\<open>shared\<close>), each with its \<open>uses\<close> counter;
  \<^item> the \<open>Environment\<close> objects (\<open>environments\<close>).
  An address is the position of the object in its list; a new object is appended.
  \<open>Regexp\<close> and \<open>External\<close> values are left out.
\<close>

type_synonym addr = nat

text \<open>\<open>SourceLocation(filename, line)\<close>.\<close>

type_synonym location = "string option \<times> nat"

text \<open>
  The data of a \<open>Number\<close> is a Python float. A finite float is kept as the rational it
  denotes (the sign of zero is dropped: no operation below tells the two zeros apart).
\<close>

datatype number = Finite rat | PosInf | NegInf | NaN

text \<open>The host-implemented builtins that are modelled (each is a \<open>Builtin\<close> subclass).\<close>

datatype builtin =
    vector_count | vector_push | vector_pop | vector_insert | vector_remove
  | map_count | map_insert | map_remove
  | set_count | set_insert | set_remove

text \<open>
  The second argument of most constructors is the field \<open>meta\<close> (the address of a
  \<open>MetaMap\<close> object, or \<open>None\<close>). A container holds the address of its shared data.
  \<open>MetaMap\<close> is the subclass of \<open>Map\<close> with a \<open>name\<close> and no metamap of its own.
  A \<open>Function\<close> holds the index of its \<open>AstExpressionFunction\<close> node and the
  address of its environment.
\<close>

datatype val =
    Null "addr option"
  | Boolean bool "addr option"
  | Number number "addr option"
  | String string "addr option"
  | Vector addr "addr option"
  | Map addr "addr option"
  | MetaMap addr string
  | Set addr "addr option"
  | Reference addr "addr option"
  | Function nat addr "addr option"
  | Builtin builtin "addr option"

fun meta :: "val \<Rightarrow> addr option" where
  "meta (Null m) = m"
| "meta (Boolean b m) = m"
| "meta (Number x m) = m"
| "meta (String t m) = m"
| "meta (Vector d m) = m"
| "meta (Map d m) = m"
| "meta (MetaMap d n) = None"
| "meta (Set d m) = m"
| "meta (Reference r m) = m"
| "meta (Function f e m) = m"
| "meta (Builtin b m) = m"

text \<open>
  The keys of a \<open>SharedMapData\<close> and the elements of a \<open>SharedSetData\<close> are kept by
  value, the values of a map and the elements of a vector by address. Both dictionaries
  keep insertion order.
\<close>

datatype storage =
    SharedVectorData "addr list"
  | SharedMapData "(val \<times> addr) list"
  | SharedSetData "val list"

datatype shared = Shared (body: storage) (uses: int)

text \<open>
  \<open>Environment\<close>: the enclosing environment and the store. The store is a \<open>Map\<close> that
  no value of a script aliases and whose keys are identifier names; it is kept as the
  association list of its dictionary.
\<close>

datatype environment = Environment (outer: "addr option") (env_store: "(string \<times> addr) list")

record state =
  objects :: "val list"
  shareds :: "shared list"
  environments :: "environment list"

text \<open>\<open>Error\<close>: location, value (the address of the payload) and trace.\<close>

datatype error = Error (location: "location option") (payload: addr)
  (trace: "(location option \<times> addr) list")

text \<open>
  An \<open>eval\<close> method takes the environment and the state and gives its result and the
  new state; \<open>None\<close> stands for an evaluation that gives no result (it does not
  terminate, or it leaves the interpreter by a Python exception). The result of an
  expression is an \<open>Error\<close> (\<open>Inl\<close>) or the address of a \<open>Value\<close> (\<open>Inr\<close>).
\<close>

type_synonym 'a eval = "addr \<Rightarrow> state \<Rightarrow> ('a \<times> state) option"

type_synonym expr = "(error + addr) eval"

definition value_at :: "state \<Rightarrow> addr \<Rightarrow> val option" where
  "value_at s a = (if a < length (objects s) then Some (objects s ! a) else None)"

definition new_object :: "val \<Rightarrow> state \<Rightarrow> addr \<times> state" where
  "new_object v s = (length (objects s), s\<lparr>objects := objects s @ [v]\<rparr>)"

text \<open>
  The metamaps of the fundamental types are module-level objects, created in this order
  when the interpreter starts; they take the first addresses.
\<close>

definition FUNCTION_META :: addr where "FUNCTION_META = 0"
definition BOOLEAN_META :: addr where "BOOLEAN_META = 1"
definition NUMBER_META :: addr where "NUMBER_META = 2"
definition STRING_META :: addr where "STRING_META = 3"
definition REGEXP_META :: addr where "REGEXP_META = 4"
definition VECTOR_META :: addr where "VECTOR_META = 5"
definition MAP_META :: addr where "MAP_META = 6"
definition REFERENCE_META :: addr where "REFERENCE_META = 8"

definition Null_new :: "state \<Rightarrow> addr \<times> state" where
  "Null_new = new_object (Null None)"

definition Boolean_new :: "bool \<Rightarrow> state \<Rightarrow> addr \<times> state" where
  "Boolean_new data = new_object (Boolean data (Some BOOLEAN_META))"

definition Number_new :: "number \<Rightarrow> state \<Rightarrow> addr \<times> state" where
  "Number_new data = new_object (Number data (Some NUMBER_META))"

definition String_new :: "string \<Rightarrow> state \<Rightarrow> addr \<times> state" where
  "String_new data = new_object (String data (Some STRING_META))"

definition Reference_new :: "addr \<Rightarrow> state \<Rightarrow> addr \<times> state" where
  "Reference_new data = new_object (Reference data (Some REFERENCE_META))"

text \<open>\<open>Error(location, value)\<close> with a \<open>str\<close> value wraps it in \<open>String.new\<close>.\<close>

definition Error_new :: "location option \<Rightarrow> string \<Rightarrow> state \<Rightarrow> error \<times> state" where
  "Error_new loc message s = (let (a, s1) = String_new message s in (Error loc a [], s1))"

fun class_typename :: "val \<Rightarrow> string" where
  "class_typename (Null m) = ''null''"
| "class_typename (Boolean b m) = ''boolean''"
| "class_typename (Number x m) = ''number''"
| "class_typename (String t m) = ''string''"
| "class_typename (Vector d m) = ''vector''"
| "class_typename (Map d m) = ''map''"
| "class_typename (MetaMap d n) = ''map''"
| "class_typename (Set d m) = ''set''"
| "class_typename (Reference r m) = ''reference''"
| "class_typename (Function f e m) = ''function''"
| "class_typename (Builtin b m) = ''function''"

text \<open>\<open>typename(value)\<close>: the name of the metamap when there is one.\<close>

definition typename :: "state \<Rightarrow> val \<Rightarrow> string option" where
  "typename s v =
     (case meta v of
        None \<Rightarrow> Some (class_typename v)
      | Some m \<Rightarrow> (case value_at s m of Some (MetaMap d name) \<Rightarrow> Some name | _ \<Rightarrow> None))"

definition quote :: "string \<Rightarrow> string" where
  "quote text =
     (if CHR 0x60 \<notin> set text then [CHR 0x60] @ text @ [CHR 0x60]
      else [CHR 0x22] @ text @ [CHR 0x22])"

section \<open>Literals and the logical operators\<close>

text \<open>
  A literal node holds a value made by the parser and evaluates to a copy of it
  (\<open>__copy__\<close> of a scalar builds a new object with the same data and metamap).
\<close>

definition AstExpressionNull_eval :: "val \<Rightarrow> expr" where
  "AstExpressionNull_eval data env s = Some (apfst Inr (new_object data s))"

definition AstExpressionBoolean_eval :: "val \<Rightarrow> expr" where
  "AstExpressionBoolean_eval data env s = Some (apfst Inr (new_object data s))"

definition AstExpressionNumber_eval :: "val \<Rightarrow> expr" where
  "AstExpressionNumber_eval data env s = Some (apfst Inr (new_object data s))"

definition AstExpressionString_eval :: "val \<Rightarrow> expr" where
  "AstExpressionString_eval data env s = Some (apfst Inr (new_object data s))"

fun is_Boolean :: "val \<Rightarrow> bool" where
  "is_Boolean (Boolean b m) = True"
| "is_Boolean v = False"

fun Boolean_data :: "val \<Rightarrow> bool" where
  "Boolean_data (Boolean b m) = b"
| "Boolean_data v = False"

definition binary_type_error ::
  "location option \<Rightarrow> string \<Rightarrow> addr \<Rightarrow> addr \<Rightarrow> state \<Rightarrow> ((error + addr) \<times> state) option" where
  "binary_type_error loc operation lhs rhs s = do {
     lv \<leftarrow> value_at s lhs;
     rv \<leftarrow> value_at s rhs;
     lt \<leftarrow> typename s lv;
     rt \<leftarrow> typename s rv;
     Some (apfst Inl (Error_new loc
       (''attempted '' @ operation @ '' operation with types '' @ quote lt @ '' and '' @ quote rt) s))
   }"

definition AstExpressionAnd_eval :: "location option \<Rightarrow> expr \<Rightarrow> expr \<Rightarrow> expr" where
  "AstExpressionAnd_eval loc lhs rhs env s = do {
     (l, s1) \<leftarrow> lhs env s;
     case l of
       Inl e \<Rightarrow> Some (Inl e, s1)
     | Inr la \<Rightarrow> do {
         lv \<leftarrow> value_at s1 la;
         if is_Boolean lv \<and> \<not> Boolean_data lv then Some (apfst Inr (Boolean_new False s1))
         else do {
           (r, s2) \<leftarrow> rhs env s1;
           case r of
             Inl e \<Rightarrow> Some (Inl e, s2)
           | Inr ra \<Rightarrow> do {
               rv \<leftarrow> value_at s2 ra;
               if is_Boolean rv \<and> \<not> Boolean_data rv then Some (apfst Inr (Boolean_new False s2))
               else do {
                 lv \<leftarrow> value_at s2 la;
                 if is_Boolean lv \<and> is_Boolean rv
                 then Some (apfst Inr (Boolean_new (Boolean_data lv \<and> Boolean_data rv) s2))
                 else binary_type_error loc ''binary and'' la ra s2
               }
             }
         }
       }
   }"

definition AstExpressionOr_eval :: "location option \<Rightarrow> expr \<Rightarrow> expr \<Rightarrow> expr" where
  "AstExpressionOr_eval loc lhs rhs env s = do {
     (l, s1) \<leftarrow> lhs env s;
     case l of
       Inl e \<Rightarrow> Some (Inl e, s1)
     | Inr la \<Rightarrow> do {
         lv \<leftarrow> value_at s1 la;
         if is_Boolean lv \<and> Boolean_data lv then Some (apfst Inr (Boolean_new True s1))
         else do {
           (r, s2) \<leftarrow> rhs env s1;
           case r of
             Inl e \<Rightarrow> Some (Inl e, s2)
           | Inr ra \<Rightarrow> do {
               rv \<leftarrow> value_at s2 ra;
               if is_Boolean rv \<and> Boolean_data rv then Some (apfst Inr (Boolean_new True s2))
               else do {
                 lv \<leftarrow> value_at s2 la;
                 if is_Boolean lv \<and> is_Boolean rv
                 then Some (apfst Inr (Boolean_new (Boolean_data lv \<or> Boolean_data rv) s2))
                 else binary_type_error loc ''binary or'' la ra s2
               }
             }
         }
       }
   }"


section \<open>Environments\<close>

definition environment_at :: "state \<Rightarrow> addr \<Rightarrow> environment option" where
  "environment_at s e = (if e < length (environments s) then Some (environments s ! e) else None)"

text \<open>\<open>Environment(outer)\<close>: a new environment with an empty store.\<close>

definition Environment_new :: "addr option \<Rightarrow> state \<Rightarrow> addr \<times> state" where
  "Environment_new out s =
     (length (environments s), s\<lparr>environments := environments s @ [Environment out []]\<rparr>)"

text \<open>
  Assignment into a Python dictionary: the value of a key that is present is replaced in
  place, a new key goes to the end.
\<close>

fun dict_set :: "string \<Rightarrow> addr \<Rightarrow> (string \<times> addr) list \<Rightarrow> (string \<times> addr) list" where
  "dict_set k v [] = [(k, v)]"
| "dict_set k v ((k', v') # kvs) = (if k' = k then (k', v) # kvs else (k', v') # dict_set k v kvs)"

text \<open>\<open>Environment.let\<close>: \<open>self.store[name] = value\<close>. The value is stored as it is.\<close>

definition Environment_let :: "addr \<Rightarrow> string \<Rightarrow> addr \<Rightarrow> state \<Rightarrow> state option" where
  "Environment_let env name v s = do {
     e \<leftarrow> environment_at s env;
     Some (s\<lparr>environments := (environments s)[env := Environment (outer e) (dict_set name v (env_store e))]\<rparr>)
   }"

text \<open>
  \<open>Environment.get\<close> and \<open>Environment.lookup\<close> walk the chain of enclosing
  environments. The inner \<open>option\<close> is Python's \<open>Optional\<close>; \<open>lookup\<close> gives the
  value and the environment whose store holds it.
\<close>

partial_function (option) Environment_get :: "state \<Rightarrow> string \<Rightarrow> addr \<Rightarrow> addr option option" where
  "Environment_get s name env = do {
     e \<leftarrow> environment_at s env;
     case map_of (env_store e) name of
       Some v \<Rightarrow> Some (Some v)
     | None \<Rightarrow> (case outer e of None \<Rightarrow> Some None | Some out \<Rightarrow> Environment_get s name out)
   }"

partial_function (option) Environment_lookup ::
  "state \<Rightarrow> string \<Rightarrow> addr \<Rightarrow> (addr \<times> addr) option option" where
  "Environment_lookup s name env = do {
     e \<leftarrow> environment_at s env;
     case map_of (env_store e) name of
       Some v \<Rightarrow> Some (Some (v, env))
     | None \<Rightarrow> (case outer e of None \<Rightarrow> Some None | Some out \<Rightarrow> Environment_lookup s name out)
   }"

declare Environment_get.simps [code]
declare Environment_lookup.simps [code]

section \<open>Copies and copy-on-write\<close>

definition shared_at :: "state \<Rightarrow> addr \<Rightarrow> shared option" where
  "shared_at s d = (if d < length (shareds s) then Some (shareds s ! d) else None)"

definition set_shared :: "addr \<Rightarrow> shared \<Rightarrow> state \<Rightarrow> state" where
  "set_shared d c s = s\<lparr>shareds := (shareds s)[d := c]\<rparr>"

definition new_shared :: "shared \<Rightarrow> state \<Rightarrow> addr \<times> state" where
  "new_shared c s = (length (shareds s), s\<lparr>shareds := shareds s @ [c]\<rparr>)"

definition set_object :: "addr \<Rightarrow> val \<Rightarrow> state \<Rightarrow> state" where
  "set_object a v s = s\<lparr>objects := (objects s)[a := v]\<rparr>"

text \<open>
  The constructors of \<open>Vector\<close>, \<open>Map\<close> and \<open>Set\<close> end with
  \<open>self.data.uses += 1\<close>. Their \<open>__del__\<close> takes the use back when Python reclaims
  the object; when that happens is up to the host, and it is not modelled: a counter here
  is never below the number of containers that hold the data.
\<close>

definition add_use :: "addr \<Rightarrow> state \<Rightarrow> state option" where
  "add_use d s = do {
     c \<leftarrow> shared_at s d;
     Some (set_shared d (Shared (body c) (uses c + 1)) s)
   }"

text \<open>
  \<open>__copy__\<close>: a metamap and a builtin are their own copy; a container gives a new
  object on the same shared data; every other value gives a new object with the same
  fields.
\<close>

definition copy :: "addr \<Rightarrow> state \<Rightarrow> (addr \<times> state) option" where
  "copy a s = do {
     v \<leftarrow> value_at s a;
     case v of
       MetaMap d name \<Rightarrow> Some (a, s)
     | Builtin b m \<Rightarrow> Some (a, s)
     | Vector d m \<Rightarrow> do { s1 \<leftarrow> add_use d s; Some (new_object (Vector d m) s1) }
     | Map d m \<Rightarrow> do { s1 \<leftarrow> add_use d s; Some (new_object (Map d m) s1) }
     | Set d m \<Rightarrow> do { s1 \<leftarrow> add_use d s; Some (new_object (Set d m) s1) }
     | _ \<Rightarrow> Some (new_object v s)
   }"

fun copy_all :: "addr list \<Rightarrow> state \<Rightarrow> (addr list \<times> state) option" where
  "copy_all [] s = Some ([], s)"
| "copy_all (x # xs) s = do {
     (y, s1) \<leftarrow> copy x s;
     (ys, s2) \<leftarrow> copy_all xs s1;
     Some (y # ys, s2)
   }"

text \<open>
  A key of a map or an element of a set is a \<open>Null\<close>, a \<open>Boolean\<close>, a \<open>String\<close> or
  a \<open>Number\<close> other than NaN: for these the dictionary finds a key exactly when
  \<open>__eq__\<close> holds (which ignores the metamap). Other keys are outside the model.
\<close>

fun hashable :: "val \<Rightarrow> bool" where
  "hashable (Null m) = True"
| "hashable (Boolean b m) = True"
| "hashable (Number x m) = (x \<noteq> NaN)"
| "hashable (String t m) = True"
| "hashable v = False"

fun key_eq :: "val \<Rightarrow> val \<Rightarrow> bool" where
  "key_eq (Null m) (Null m') = True"
| "key_eq (Boolean a m) (Boolean b m') = (a = b)"
| "key_eq (Number a m) (Number b m') = (a = b)"
| "key_eq (String a m) (String b m') = (a = b)"
| "key_eq v w = False"

text \<open>\<open>__copy__\<close> of the three kinds of shared data copies the elements one by one.\<close>

definition SharedData_copy :: "storage \<Rightarrow> state \<Rightarrow> (storage \<times> state) option" where
  "SharedData_copy b s =
     (case b of
        SharedVectorData xs \<Rightarrow> do {
          (ys, s1) \<leftarrow> copy_all xs s;
          Some (SharedVectorData ys, s1)
        }
      | SharedMapData kvs \<Rightarrow>
          if list_all hashable (map fst kvs) then do {
            (ys, s1) \<leftarrow> copy_all (map snd kvs) s;
            Some (SharedMapData (zip (map fst kvs) ys), s1)
          } else None
      | SharedSetData ks \<Rightarrow> if list_all hashable ks then Some (SharedSetData ks, s) else None)"

fun data_of :: "val \<Rightarrow> addr option" where
  "data_of (Vector d m) = Some d"
| "data_of (Map d m) = Some d"
| "data_of (MetaMap d n) = Some d"
| "data_of (Set d m) = Some d"
| "data_of v = None"

fun with_data :: "val \<Rightarrow> addr \<Rightarrow> val" where
  "with_data (Vector d m) d' = Vector d' m"
| "with_data (Map d m) d' = Map d' m"
| "with_data (MetaMap d n) d' = MetaMap d' n"
| "with_data (Set d m) d' = Set d' m"
| "with_data v d' = v"

text \<open>
  The copy-on-write step, written out in \<open>cow\<close> and at the head of every mutating
  method of a container:
  \<^verbatim>\<open>
      if self.data.uses > 1:
          self.data.uses -= 1
          self.data = copy(self.data)  # copy-on-write
          self.data.uses += 1
  \<close>
  For a value that is not a container, \<open>cow\<close> does nothing.
\<close>

definition cow :: "addr \<Rightarrow> state \<Rightarrow> state option" where
  "cow self s = do {
     v \<leftarrow> value_at s self;
     case data_of v of
       None \<Rightarrow> Some s
     | Some d \<Rightarrow> do {
         c \<leftarrow> shared_at s d;
         if uses c > 1 then do {
           (b, s1) \<leftarrow> SharedData_copy (body c) (set_shared d (Shared (body c) (uses c - 1)) s);
           let (d', s2) = new_shared (Shared b 1) s1;
           Some (set_object self (with_data v d') s2)
         } else Some s
       }
   }"

section \<open>Statements\<close>

text \<open>
  The result of a statement: Python's \<open>None\<close>, or one of \<open>Return\<close>, \<open>Break\<close>,
  \<open>Continue\<close> and \<open>Error\<close>.
\<close>

datatype control = Return addr | Break "location option" | Continue "location option" | Err error

type_synonym stmt = "control option eval"

text \<open>\<open>AstBlock.eval\<close>: a new scope, then the statements up to the first result.\<close>

fun eval_statements :: "stmt list \<Rightarrow> stmt" where
  "eval_statements [] env s = Some (None, s)"
| "eval_statements (statement # statements) env s = do {
     (result, s1) \<leftarrow> statement env s;
     if result \<noteq> None then Some (result, s1) else eval_statements statements env s1
   }"

definition AstBlock_eval :: "stmt list \<Rightarrow> stmt" where
  "AstBlock_eval statements env s =
     (let (env', s1) = Environment_new (Some env) s in eval_statements statements env' s1)"

definition AstStatementLet_eval :: "string \<Rightarrow> expr \<Rightarrow> stmt" where
  "AstStatementLet_eval identifier expression env s = do {
     (result, s1) \<leftarrow> expression env s;
     case result of
       Inl e \<Rightarrow> Some (Some (Err e), s1)
     | Inr v \<Rightarrow> do {
         (c, s2) \<leftarrow> copy v s1;
         s3 \<leftarrow> Environment_let env identifier c s2;
         Some (None, s3)
       }
   }"

definition AstStatementTry_eval :: "stmt \<Rightarrow> string option \<Rightarrow> stmt \<Rightarrow> stmt" where
  "AstStatementTry_eval try_block catch_identifier catch_block env s = do {
     (result, s1) \<leftarrow> try_block env s;
     case result of
       Some (Return v) \<Rightarrow> Some (result, s1)
     | Some (Break l) \<Rightarrow> Some (result, s1)
     | Some (Continue l) \<Rightarrow> Some (result, s1)
     | Some (Err e) \<Rightarrow> do {
         let (env', s2) = Environment_new (Some env) s1;
         s3 \<leftarrow> (case catch_identifier of
                  None \<Rightarrow> Some s2
                | Some name \<Rightarrow> Environment_let env' name (payload e) s2);
         catch_block env' s3
       }
     | None \<Rightarrow> Some (None, s1)
   }"

definition AstStatementError_eval :: "location option \<Rightarrow> expr \<Rightarrow> stmt" where
  "AstStatementError_eval loc expression env s = do {
     (result, s1) \<leftarrow> expression env s;
     case result of
       Inl e \<Rightarrow> Some (Some (Err e), s1)
     | Inr v \<Rightarrow> Some (Some (Err (Error loc v [])), s1)
   }"

definition AstStatementReturn_eval :: "expr option \<Rightarrow> stmt" where
  "AstStatementReturn_eval expression env s =
     (case expression of
        None \<Rightarrow> Some (apfst (\<lambda>v. Some (Return v)) (Null_new s))
      | Some e \<Rightarrow> do {
          (result, s1) \<leftarrow> e env s;
          case result of
            Inl e \<Rightarrow> Some (Some (Err e), s1)
          | Inr v \<Rightarrow> Some (Some (Return v), s1)
        })"

definition AstStatementBreak_eval :: "location option \<Rightarrow> stmt" where
  "AstStatementBreak_eval loc env s = Some (Some (Break loc), s)"

definition AstStatementContinue_eval :: "location option \<Rightarrow> stmt" where
  "AstStatementContinue_eval loc env s = Some (Some (Continue loc), s)"

definition AstStatementExpression_eval :: "expr \<Rightarrow> stmt" where
  "AstStatementExpression_eval expression env s = do {
     (result, s1) \<leftarrow> expression env s;
     case result of
       Inl e \<Rightarrow> Some (Some (Err e), s1)
     | Inr v \<Rightarrow> Some (None, s1)
   }"

text \<open>\<open>AstExpressionIdentifier.eval\<close>: the object held by the environment, not a copy.\<close>

definition AstExpressionIdentifier_eval :: "location option \<Rightarrow> string \<Rightarrow> expr" where
  "AstExpressionIdentifier_eval loc name env s = do {
     v \<leftarrow> Environment_get s name env;
     case v of
       None \<Rightarrow> Some (apfst Inl (Error_new loc (''identifier '' @ quote name @ '' is not defined'') s))
     | Some a \<Rightarrow> Some (Inr a, s)
   }"

section \<open>Host functions and Python exceptions\<close>

text \<open>
  Four functions of the host are parameters of the model: \<open>value_str\<close> is \<open>str(value)\<close>,
  the stringifier of a value, which only the text of error messages uses here;
  \<open>str_repr\<close> is Python's \<open>repr\<close> of a string (\<open>str\<close> of a \<open>KeyError\<close> is the
  \<open>repr\<close> of its message); \<open>float_str\<close> is \<open>str\<close> of a float; \<open>float_div\<close> is
  the division of two floats, the second not zero.
\<close>

record host =
  value_str :: "state \<Rightarrow> val \<Rightarrow> string"
  str_repr :: "string \<Rightarrow> string"
  float_str :: "number \<Rightarrow> string"
  float_div :: "number \<Rightarrow> number \<Rightarrow> number"

text \<open>
  The exceptions the modelled methods raise. \<open>InvalidFieldAccess\<close> is a subclass of
  \<open>KeyError\<close> holding copies of the value and of the field.
\<close>

datatype exception =
    KeyError string
  | IndexError string
  | NotImplementedError
  | InvalidFieldAccess addr addr
  | Exception string

fun is_KeyError :: "exception \<Rightarrow> bool" where
  "is_KeyError (KeyError m) = True"
| "is_KeyError (InvalidFieldAccess v f) = True"
| "is_KeyError e = False"

fun is_IndexError :: "exception \<Rightarrow> bool" where
  "is_IndexError (IndexError m) = True"
| "is_IndexError e = False"

text \<open>\<open>isinstance(e, (NotImplementedError, IndexError, KeyError))\<close>.\<close>

fun is_access_error :: "exception \<Rightarrow> bool" where
  "is_access_error (Exception m) = False"
| "is_access_error e = True"

text \<open>\<open>str(e)\<close>.\<close>

fun exception_str :: "host \<Rightarrow> state \<Rightarrow> exception \<Rightarrow> string option" where
  "exception_str h s (KeyError m) = Some (str_repr h m)"
| "exception_str h s (IndexError m) = Some m"
| "exception_str h s NotImplementedError = Some []"
| "exception_str h s (InvalidFieldAccess v f) = do {
     v' \<leftarrow> value_at s v;
     f' \<leftarrow> value_at s f;
     Some (''invalid access into value '' @ value_str h s v' @ '' with field '' @ value_str h s f')
   }"
| "exception_str h s (Exception m) = Some m"

text \<open>The decimal digits of an integer, as an f-string prints it.\<close>

function show_nat :: "nat \<Rightarrow> string" where
  "show_nat n =
     (if n < 10 then [char_of (48 + n)] else show_nat (n div 10) @ [char_of (48 + n mod 10)])"
  by pat_completeness auto
termination
  by (relation "measure id") auto

definition show_int :: "int \<Rightarrow> string" where
  "show_int i = (if i < 0 then ''-'' @ show_nat (nat (- i)) else show_nat (nat i))"

text \<open>\<open>float.is_integer\<close> and \<open>int(float)\<close> (truncation; defined on finite floats).\<close>

fun is_integer :: "number \<Rightarrow> bool" where
  "is_integer (Finite q) = (q = of_int \<lfloor>q\<rfloor>)"
| "is_integer x = False"

fun int_of :: "number \<Rightarrow> int" where
  "int_of (Finite q) = (if 0 \<le> q then \<lfloor>q\<rfloor> else \<lceil>q\<rceil>)"
| "int_of x = 0"

text \<open>
  \<open>float(i)\<close> of a Python integer: the nearest double, ties to even; \<open>None\<close> is the
  \<open>OverflowError\<close> of an integer beyond the range of a double.
\<close>

definition float_of_int :: "int \<Rightarrow> number option" where
  "float_of_int i =
     (let a = \<bar>i\<bar>; e = bitlen a - 53 in
      if e \<le> 0 then Some (Finite (of_int i))
      else
        let q = a div 2 ^ nat e; r = a mod 2 ^ nat e;
            q' = (if 2 * r > 2 ^ nat e \<or> (2 * r = 2 ^ nat e \<and> odd q) then q + 1 else q);
            m = q' * 2 ^ nat e
        in if m < 2 ^ 1024 then Some (Finite (of_int (sgn i * m))) else None)"

section \<open>The methods of the containers\<close>

text \<open>Python's \<open>list[i]\<close>, \<open>list[i] = v\<close> and \<open>del list[i]\<close>: a negative index counts from the end.\<close>

definition list_index :: "'a list \<Rightarrow> int \<Rightarrow> nat option" where
  "list_index xs i =
     (let n = int (length xs); j = (if i < 0 then n + i else i)
      in if 0 \<le> j \<and> j < n then Some (nat j) else None)"

text \<open>Python's \<open>list.insert(i, v)\<close>: the index is clamped to the list.\<close>

definition list_insert :: "'a list \<Rightarrow> int \<Rightarrow> 'a \<Rightarrow> 'a list" where
  "list_insert xs i v =
     (let n = int (length xs); j = (if i < 0 then max 0 (n + i) else min n i)
      in take (nat j) xs @ [v] @ drop (nat j) xs)"

definition delete_at :: "'a list \<Rightarrow> nat \<Rightarrow> 'a list" where
  "delete_at xs j = take j xs @ drop (Suc j) xs"

text \<open>The index checks at the head of \<open>Vector.__setitem__\<close> and \<open>Vector.__getitem__\<close>.\<close>

definition vector_key :: "host \<Rightarrow> state \<Rightarrow> val \<Rightarrow> exception + int" where
  "vector_key h s key =
     (case key of
        Number x m \<Rightarrow>
          if \<not> is_integer x
          then Inl (KeyError (''attempted vector access using non-integer number '' @ float_str h x))
          else if int_of x < 0
          then Inl (KeyError (''attempted vector access using a negative index '' @ show_int (int_of x)))
          else Inr (int_of x)
      | _ \<Rightarrow> Inl (KeyError (''attempted vector access using non-number key '' @ value_str h s key)))"

text \<open>The elements of a vector, the items of a map, the elements of a set.\<close>

definition vector_data :: "state \<Rightarrow> addr \<Rightarrow> addr list option" where
  "vector_data s d = do {
     c \<leftarrow> shared_at s d;
     case body c of SharedVectorData xs \<Rightarrow> Some xs | _ \<Rightarrow> None
   }"

definition map_data :: "state \<Rightarrow> addr \<Rightarrow> (val \<times> addr) list option" where
  "map_data s d = do {
     c \<leftarrow> shared_at s d;
     case body c of SharedMapData kvs \<Rightarrow> Some kvs | _ \<Rightarrow> None
   }"

definition set_data :: "state \<Rightarrow> addr \<Rightarrow> val list option" where
  "set_data s d = do {
     c \<leftarrow> shared_at s d;
     case body c of SharedSetData ks \<Rightarrow> Some ks | _ \<Rightarrow> None
   }"

definition set_body :: "addr \<Rightarrow> storage \<Rightarrow> state \<Rightarrow> state option" where
  "set_body d b s = do {
     c \<leftarrow> shared_at s d;
     Some (set_shared d (Shared b (uses c)) s)
   }"

type_synonym 'a raising = "state \<Rightarrow> ((exception + 'a) \<times> state) option"

definition Vector_setitem :: "host \<Rightarrow> addr \<Rightarrow> val \<Rightarrow> addr \<Rightarrow> unit raising" where
  "Vector_setitem h self key v s =
     (case vector_key h s key of
       Inl e \<Rightarrow> Some (Inl e, s)
     | Inr i \<Rightarrow> do {
         s1 \<leftarrow> cow self s;
         me \<leftarrow> value_at s1 self;
         d \<leftarrow> data_of me;
         xs \<leftarrow> vector_data s1 d;
         case list_index xs i of
           None \<Rightarrow> Some (Inl (IndexError ''list assignment index out of range''), s1)
         | Some j \<Rightarrow> do {
             s2 \<leftarrow> set_body d (SharedVectorData (xs[j := v])) s1;
             Some (Inr (), s2)
           }
       })"

definition Vector_getitem :: "host \<Rightarrow> addr \<Rightarrow> val \<Rightarrow> addr raising" where
  "Vector_getitem h self key s =
     (case vector_key h s key of
       Inl e \<Rightarrow> Some (Inl e, s)
     | Inr i \<Rightarrow> do {
         me \<leftarrow> value_at s self;
         d \<leftarrow> data_of me;
         xs \<leftarrow> vector_data s d;
         case list_index xs i of
           None \<Rightarrow> Some (Inl (IndexError ''list index out of range''), s)
         | Some j \<Rightarrow> Some (Inr (xs ! j), s)
       })"

text \<open>Lookup, assignment and deletion in a dictionary whose keys are compared by \<open>__eq__\<close>.\<close>

fun items_get :: "val \<Rightarrow> (val \<times> addr) list \<Rightarrow> addr option" where
  "items_get k [] = None"
| "items_get k ((k', v') # kvs) = (if key_eq k' k then Some v' else items_get k kvs)"

fun items_set :: "val \<Rightarrow> addr \<Rightarrow> (val \<times> addr) list \<Rightarrow> (val \<times> addr) list" where
  "items_set k v [] = [(k, v)]"
| "items_set k v ((k', v') # kvs) =
     (if key_eq k' k then (k', v) # kvs else (k', v') # items_set k v kvs)"

fun items_del :: "val \<Rightarrow> (val \<times> addr) list \<Rightarrow> (val \<times> addr) list" where
  "items_del k [] = []"
| "items_del k ((k', v') # kvs) = (if key_eq k' k then kvs else (k', v') # items_del k kvs)"

fun keys_mem :: "val \<Rightarrow> val list \<Rightarrow> bool" where
  "keys_mem k [] = False"
| "keys_mem k (k' # ks) = (key_eq k' k \<or> keys_mem k ks)"

fun keys_del :: "val \<Rightarrow> val list \<Rightarrow> val list" where
  "keys_del k [] = []"
| "keys_del k (k' # ks) = (if key_eq k' k then ks else k' # keys_del k ks)"

text \<open>The key of a dictionary access has to be one the model covers.\<close>

definition dict_key :: "val \<Rightarrow> val option" where
  "dict_key k = (if hashable k then Some k else None)"

text \<open>\<open>InvalidFieldAccess(value, field)\<close> copies both (the field is a key, a scalar).\<close>

definition InvalidFieldAccess_new :: "addr \<Rightarrow> val \<Rightarrow> state \<Rightarrow> (exception \<times> state) option" where
  "InvalidFieldAccess_new v field s = do {
     (v', s1) \<leftarrow> copy v s;
     let (field', s2) = new_object field s1;
     Some (InvalidFieldAccess v' field', s2)
   }"

definition Map_getitem :: "addr \<Rightarrow> val \<Rightarrow> addr raising" where
  "Map_getitem self key s = do {
     me \<leftarrow> value_at s self;
     d \<leftarrow> data_of me;
     kvs \<leftarrow> map_data s d;
     k \<leftarrow> dict_key key;
     case items_get k kvs of
       Some v \<Rightarrow> Some (Inr v, s)
     | None \<Rightarrow> do { (e, s1) \<leftarrow> InvalidFieldAccess_new self key s; Some (Inl e, s1) }
   }"

definition Map_setitem :: "addr \<Rightarrow> val \<Rightarrow> addr \<Rightarrow> unit raising" where
  "Map_setitem self key v s = do {
     s1 \<leftarrow> cow self s;
     me \<leftarrow> value_at s1 self;
     d \<leftarrow> data_of me;
     kvs \<leftarrow> map_data s1 d;
     k \<leftarrow> dict_key key;
     s2 \<leftarrow> set_body d (SharedMapData (items_set k v kvs)) s1;
     Some (Inr (), s2)
   }"

definition Map_delitem :: "addr \<Rightarrow> val \<Rightarrow> unit raising" where
  "Map_delitem self key s = do {
     s1 \<leftarrow> cow self s;
     me \<leftarrow> value_at s1 self;
     d \<leftarrow> data_of me;
     kvs \<leftarrow> map_data s1 d;
     k \<leftarrow> dict_key key;
     case items_get k kvs of
       Some v \<Rightarrow> do {
         s2 \<leftarrow> set_body d (SharedMapData (items_del k kvs)) s1;
         Some (Inr (), s2)
       }
     | None \<Rightarrow> do { (e, s2) \<leftarrow> InvalidFieldAccess_new self key s1; Some (Inl e, s2) }
   }"

text \<open>\<open>MetaMap.__setitem__\<close> raises, whatever the key and the value.\<close>

definition MetaMap_setitem :: "host \<Rightarrow> addr \<Rightarrow> val \<Rightarrow> addr \<Rightarrow> unit raising" where
  "MetaMap_setitem h self key v s = do {
     me \<leftarrow> value_at s self;
     Some (Inl (Exception (''attempted to modify metamap '' @ value_str h s me)), s)
   }"

definition Set_insert :: "addr \<Rightarrow> val \<Rightarrow> unit raising" where
  "Set_insert self element s = do {
     s1 \<leftarrow> cow self s;
     me \<leftarrow> value_at s1 self;
     d \<leftarrow> data_of me;
     ks \<leftarrow> set_data s1 d;
     k \<leftarrow> dict_key element;
     s2 \<leftarrow> set_body d (SharedSetData (if keys_mem k ks then ks else ks @ [k])) s1;
     Some (Inr (), s2)
   }"

definition Set_remove :: "host \<Rightarrow> addr \<Rightarrow> val \<Rightarrow> unit raising" where
  "Set_remove h self element s = do {
     s1 \<leftarrow> cow self s;
     me \<leftarrow> value_at s1 self;
     d \<leftarrow> data_of me;
     ks \<leftarrow> set_data s1 d;
     k \<leftarrow> dict_key element;
     if keys_mem k ks then do {
       s2 \<leftarrow> set_body d (SharedSetData (keys_del k ks)) s1;
       Some (Inr (), s2)
     } else Some (Inl (KeyError (value_str h s1 element)), s1)
   }"

text \<open>
  \<open>value[key]\<close> and \<open>value[key] = v\<close> by the class of the value; the methods of
  \<open>Value\<close> itself raise \<open>NotImplementedError\<close>. The key is given by its fields: it is
  the object an expression gave, or the name held by a node of the syntax tree.
\<close>

definition getitem :: "host \<Rightarrow> addr \<Rightarrow> val \<Rightarrow> addr raising" where
  "getitem h self key s = do {
     me \<leftarrow> value_at s self;
     case me of
       Vector d m \<Rightarrow> Vector_getitem h self key s
     | Map d m \<Rightarrow> Map_getitem self key s
     | MetaMap d n \<Rightarrow> Map_getitem self key s
     | _ \<Rightarrow> Some (Inl NotImplementedError, s)
   }"

definition setitem :: "host \<Rightarrow> addr \<Rightarrow> val \<Rightarrow> addr \<Rightarrow> unit raising" where
  "setitem h self key v s = do {
     me \<leftarrow> value_at s self;
     case me of
       Vector d m \<Rightarrow> Vector_setitem h self key v s
     | Map d m \<Rightarrow> Map_setitem self key v s
     | MetaMap d n \<Rightarrow> MetaMap_setitem h self key v s
     | _ \<Rightarrow> Some (Inl NotImplementedError, s)
   }"


section \<open>Builtins and calls\<close>

text \<open>
  The classes a builtin names in its argument list, \<open>isinstance\<close>, and the static
  \<open>typename()\<close> of each class. A metamap is an instance of \<open>Map\<close>.
\<close>

datatype cls = AnyValue | NumberClass | VectorClass | MapClass | SetClass

fun isinstance :: "val \<Rightarrow> cls \<Rightarrow> bool" where
  "isinstance v AnyValue = True"
| "isinstance (Number x m) NumberClass = True"
| "isinstance (Vector d m) VectorClass = True"
| "isinstance (Map d m) MapClass = True"
| "isinstance (MetaMap d n) MapClass = True"
| "isinstance (Set d m) SetClass = True"
| "isinstance v c = False"

fun cls_typename :: "cls \<Rightarrow> string" where
  "cls_typename AnyValue = ''value''"
| "cls_typename NumberClass = ''number''"
| "cls_typename VectorClass = ''vector''"
| "cls_typename MapClass = ''map''"
| "cls_typename SetClass = ''set''"

datatype argtype = Plain cls | ReferenceTo cls

text \<open>The argument list given to the decorator \<open>@builtin(name, args)\<close>.\<close>

fun builtin_args :: "builtin \<Rightarrow> argtype list" where
  "builtin_args vector_count = [ReferenceTo VectorClass]"
| "builtin_args vector_push = [ReferenceTo VectorClass, Plain AnyValue]"
| "builtin_args vector_pop = [ReferenceTo VectorClass]"
| "builtin_args vector_insert = [ReferenceTo VectorClass, Plain NumberClass, Plain AnyValue]"
| "builtin_args vector_remove = [ReferenceTo VectorClass, Plain NumberClass]"
| "builtin_args map_count = [ReferenceTo MapClass]"
| "builtin_args map_insert = [ReferenceTo MapClass, Plain AnyValue, Plain AnyValue]"
| "builtin_args map_remove = [ReferenceTo MapClass, Plain AnyValue]"
| "builtin_args set_count = [ReferenceTo SetClass]"
| "builtin_args set_insert = [ReferenceTo SetClass, Plain AnyValue]"
| "builtin_args set_remove = [ReferenceTo SetClass, Plain AnyValue]"

text \<open>
  \<open>Builtin.typed_argument\<close> and \<open>Builtin.typed_argument_reference\<close>: the checked
  argument (for a reference, the reference and its referent), or the message of the
  exception.
\<close>

definition typed_argument :: "state \<Rightarrow> addr \<Rightarrow> nat \<Rightarrow> cls \<Rightarrow> (string + addr list) option" where
  "typed_argument s argument index ty = do {
     v \<leftarrow> value_at s argument;
     if isinstance v ty then Some (Inr [argument])
     else do {
       t \<leftarrow> typename s v;
       Some (Inl (''expected '' @ cls_typename ty @ ''-like value for argument '' @ show_nat index @
                  '', received '' @ t))
     }
   }"

definition typed_argument_reference ::
  "state \<Rightarrow> addr \<Rightarrow> nat \<Rightarrow> cls \<Rightarrow> (string + addr list) option" where
  "typed_argument_reference s argument index ty = do {
     v \<leftarrow> value_at s argument;
     ok \<leftarrow> (case v of
              Reference r m \<Rightarrow> do { rv \<leftarrow> value_at s r; Some (isinstance rv ty) }
            | _ \<Rightarrow> Some False);
     if ok then (case v of Reference r m \<Rightarrow> Some (Inr [argument, r]) | _ \<Rightarrow> None)
     else do {
       t \<leftarrow> typename s v;
       Some (Inl (''expected reference to '' @ cls_typename ty @ ''-like value for argument '' @
                  show_nat index @ '', received '' @ t))
     }
   }"

fun process_arguments ::
  "state \<Rightarrow> nat \<Rightarrow> argtype list \<Rightarrow> addr list \<Rightarrow> (string + addr list) option" where
  "process_arguments s i [] arguments = Some (Inr [])"
| "process_arguments s i (ty # tys) [] = None"
| "process_arguments s i (ty # tys) (argument # arguments) = do {
     r \<leftarrow> (case ty of
             ReferenceTo c \<Rightarrow> typed_argument_reference s argument i c
           | Plain c \<Rightarrow> typed_argument s argument i c);
     case r of
       Inl message \<Rightarrow> Some (Inl message)
     | Inr processed \<Rightarrow> do {
         rest \<leftarrow> process_arguments s (Suc i) tys arguments;
         case rest of
           Inl message \<Rightarrow> Some (Inl message)
         | Inr others \<Rightarrow> Some (Inr (processed @ others))
       }
   }"

text \<open>
  The bodies of the decorated functions, on the processed arguments. The result is an
  exception that leaves the function, or what it returns.
\<close>

type_synonym builtin_result = "(exception + error + addr) \<times> state"

definition returns :: "addr \<times> state \<Rightarrow> builtin_result option" where
  "returns r = Some (Inr (Inr (fst r)), snd r)"

definition returns_error :: "error \<times> state \<Rightarrow> builtin_result option" where
  "returns_error r = Some (Inr (Inl (fst r)), snd r)"

definition append_element :: "addr \<Rightarrow> addr \<Rightarrow> state \<Rightarrow> state option" where
  "append_element vector v s = do {
     me \<leftarrow> value_at s vector;
     d \<leftarrow> data_of me;
     xs \<leftarrow> vector_data s d;
     set_body d (SharedVectorData (xs @ [v])) s
   }"

definition builtin_vector_count :: "addr \<Rightarrow> state \<Rightarrow> builtin_result option" where
  "builtin_vector_count vector s = do {
     me \<leftarrow> value_at s vector;
     d \<leftarrow> data_of me;
     xs \<leftarrow> vector_data s d;
     n \<leftarrow> float_of_int (int (length xs));
     returns (Number_new n s)
   }"

definition builtin_vector_push :: "addr \<Rightarrow> addr \<Rightarrow> state \<Rightarrow> builtin_result option" where
  "builtin_vector_push vector v s = do {
     s1 \<leftarrow> cow vector s;
     s2 \<leftarrow> append_element vector v s1;
     returns (Null_new s2)
   }"

definition builtin_vector_pop :: "addr \<Rightarrow> state \<Rightarrow> builtin_result option" where
  "builtin_vector_pop vector s = do {
     s1 \<leftarrow> cow vector s;
     me \<leftarrow> value_at s1 vector;
     d \<leftarrow> data_of me;
     xs \<leftarrow> vector_data s1 d;
     if xs = [] then returns_error (Error_new None ''attempted vector::pop on an empty vector'' s1)
     else do {
       s2 \<leftarrow> set_body d (SharedVectorData (butlast xs)) s1;
       r \<leftarrow> copy (last xs) s2;
       returns r
     }
   }"

definition builtin_vector_insert ::
  "host \<Rightarrow> addr \<Rightarrow> addr \<Rightarrow> addr \<Rightarrow> state \<Rightarrow> builtin_result option" where
  "builtin_vector_insert h vector index v s = do {
     iv \<leftarrow> value_at s index;
     case iv of
       Number x m \<Rightarrow>
         if \<not> is_integer x
         then returns_error (Error_new None (''expected integer index, received '' @ value_str h s iv) s)
         else do {
           s1 \<leftarrow> cow vector s;
           me \<leftarrow> value_at s1 vector;
           d \<leftarrow> data_of me;
           xs \<leftarrow> vector_data s1 d;
           s2 \<leftarrow> set_body d (SharedVectorData (list_insert xs (int_of x) v)) s1;
           returns (Null_new s2)
         }
     | _ \<Rightarrow> None
   }"

definition builtin_vector_remove ::
  "host \<Rightarrow> addr \<Rightarrow> addr \<Rightarrow> state \<Rightarrow> builtin_result option" where
  "builtin_vector_remove h vector index s = do {
     iv \<leftarrow> value_at s index;
     case iv of
       Number x m \<Rightarrow>
         if \<not> is_integer x
         then returns_error (Error_new None (''expected integer index, received '' @ value_str h s iv) s)
         else do {
           s1 \<leftarrow> cow vector s;
           me \<leftarrow> value_at s1 vector;
           d \<leftarrow> data_of me;
           xs \<leftarrow> vector_data s1 d;
           case list_index xs (int_of x) of
             None \<Rightarrow>
               returns_error (Error_new None
                 (''attempted vector::remove with invalid index '' @ value_str h s1 iv) s1)
           | Some j \<Rightarrow> do {
               (element, s2) \<leftarrow> copy (xs ! j) s1;
               xs' \<leftarrow> vector_data s2 d;
               s3 \<leftarrow> set_body d (SharedVectorData (delete_at xs' j)) s2;
               returns (element, s3)
             }
         }
     | _ \<Rightarrow> None
   }"

definition builtin_map_count :: "addr \<Rightarrow> state \<Rightarrow> builtin_result option" where
  "builtin_map_count m s = do {
     me \<leftarrow> value_at s m;
     d \<leftarrow> data_of me;
     kvs \<leftarrow> map_data s d;
     n \<leftarrow> float_of_int (int (length kvs));
     returns (Number_new n s)
   }"

text \<open>\<open>map[k] = v\<close> inside \<open>map::insert\<close> goes by the class: a metamap raises.\<close>

definition builtin_map_insert ::
  "host \<Rightarrow> addr \<Rightarrow> addr \<Rightarrow> addr \<Rightarrow> state \<Rightarrow> builtin_result option" where
  "builtin_map_insert h m k v s = do {
     kv \<leftarrow> value_at s k;
     (r, s1) \<leftarrow> setitem h m kv v s;
     case r of
       Inl e \<Rightarrow> Some (Inl e, s1)
     | Inr u \<Rightarrow> returns (Null_new s1)
   }"

definition builtin_map_remove :: "host \<Rightarrow> addr \<Rightarrow> addr \<Rightarrow> state \<Rightarrow> builtin_result option" where
  "builtin_map_remove h m k s = do {
     kv \<leftarrow> value_at s k;
     (r, s1) \<leftarrow> Map_getitem m kv s;
     case r of
       Inl e \<Rightarrow>
         returns_error (Error_new None
           (''attempted map::remove on a map without key '' @ value_str h s1 kv) s1)
     | Inr found \<Rightarrow> do {
         (element, s2) \<leftarrow> copy found s1;
         (r', s3) \<leftarrow> Map_delitem m kv s2;
         case r' of
           Inl e \<Rightarrow>
             returns_error (Error_new None
               (''attempted map::remove on a map without key '' @ value_str h s3 kv) s3)
         | Inr u \<Rightarrow> returns (element, s3)
       }
   }"

definition builtin_set_count :: "addr \<Rightarrow> state \<Rightarrow> builtin_result option" where
  "builtin_set_count st s = do {
     me \<leftarrow> value_at s st;
     d \<leftarrow> data_of me;
     ks \<leftarrow> set_data s d;
     n \<leftarrow> float_of_int (int (length ks));
     returns (Number_new n s)
   }"

definition builtin_set_insert :: "addr \<Rightarrow> addr \<Rightarrow> state \<Rightarrow> builtin_result option" where
  "builtin_set_insert st element s = do {
     ev \<leftarrow> value_at s element;
     (r, s1) \<leftarrow> Set_insert st ev s;
     case r of
       Inl e \<Rightarrow> Some (Inl e, s1)
     | Inr u \<Rightarrow> returns (Null_new s1)
   }"

definition builtin_set_remove :: "host \<Rightarrow> addr \<Rightarrow> addr \<Rightarrow> state \<Rightarrow> builtin_result option" where
  "builtin_set_remove h st element s = do {
     ev \<leftarrow> value_at s element;
     (r, s1) \<leftarrow> Set_remove h st ev s;
     case r of
       Inl e \<Rightarrow>
         if is_KeyError e
         then returns_error (Error_new None
                (''attempted set::remove on a set without element '' @ value_str h s1 ev) s1)
         else Some (Inl e, s1)
     | Inr u \<Rightarrow> returns (Null_new s1)
   }"

text \<open>
  The method \<open>function\<close> that the decorator generates: the count of the arguments (an
  exception when it is wrong), the typed arguments (an \<open>Error\<close> when one has the wrong
  type), then the decorated function on the processed arguments.
\<close>

fun apply_builtin :: "host \<Rightarrow> builtin \<Rightarrow> addr list \<Rightarrow> state \<Rightarrow> builtin_result option" where
  "apply_builtin h vector_count [self, vector] s = builtin_vector_count vector s"
| "apply_builtin h vector_push [self, vector, v] s = builtin_vector_push vector v s"
| "apply_builtin h vector_pop [self, vector] s = builtin_vector_pop vector s"
| "apply_builtin h vector_insert [self, vector, index, v] s = builtin_vector_insert h vector index v s"
| "apply_builtin h vector_remove [self, vector, index] s = builtin_vector_remove h vector index s"
| "apply_builtin h map_count [self, m] s = builtin_map_count m s"
| "apply_builtin h map_insert [self, m, k, v] s = builtin_map_insert h m k v s"
| "apply_builtin h map_remove [self, m, k] s = builtin_map_remove h m k s"
| "apply_builtin h set_count [self, st] s = builtin_set_count st s"
| "apply_builtin h set_insert [self, st, element] s = builtin_set_insert st element s"
| "apply_builtin h set_remove [self, st, element] s = builtin_set_remove h st element s"
| "apply_builtin h b processed s = None"

definition Builtin_function :: "host \<Rightarrow> builtin \<Rightarrow> addr list \<Rightarrow> state \<Rightarrow> builtin_result option" where
  "Builtin_function h b arguments s =
     (if length arguments \<noteq> length (builtin_args b)
      then Some (Inl (Exception (''invalid argument count (expected '' @
                    show_nat (length (builtin_args b)) @ '', received '' @
                    show_nat (length arguments) @ '')'')), s)
      else do {
        r \<leftarrow> process_arguments s 0 (builtin_args b) arguments;
        case r of
          Inl message \<Rightarrow> returns_error (Error_new None message s)
        | Inr processed \<Rightarrow> apply_builtin h b processed s
      })"

fun exception_name :: "exception \<Rightarrow> string" where
  "exception_name (KeyError m) = ''KeyError''"
| "exception_name (IndexError m) = ''IndexError''"
| "exception_name NotImplementedError = ''NotImplementedError''"
| "exception_name (InvalidFieldAccess v f) = ''InvalidFieldAccess''"
| "exception_name (Exception m) = ''Exception''"

text \<open>\<open>Builtin.call\<close>: an exception of the function becomes an \<open>Error\<close>.\<close>

definition Builtin_call ::
  "host \<Rightarrow> builtin \<Rightarrow> addr list \<Rightarrow> state \<Rightarrow> ((error + addr) \<times> state) option" where
  "Builtin_call h b arguments s = do {
     (r, s1) \<leftarrow> Builtin_function h b arguments s;
     case r of
       Inr result \<Rightarrow> Some (result, s1)
     | Inl e \<Rightarrow> do {
         message \<leftarrow> exception_str h s1 e;
         Some (apfst Inl (Error_new None
           (if message = [] then ''encountered exception '' @ exception_name e else message) s1))
       }
   }"

text \<open>
  The table of the \<open>AstExpressionFunction\<close> nodes: the names of the parameters and the
  \<open>eval\<close> of the body, by the index a \<open>Function\<close> value holds.
\<close>

type_synonym function_table = "nat \<Rightarrow> string list \<times> stmt"

fun let_all :: "addr \<Rightarrow> string list \<Rightarrow> addr list \<Rightarrow> state \<Rightarrow> state option" where
  "let_all env (p # ps) (a # as) s = do { s1 \<leftarrow> Environment_let env p a s; let_all env ps as s1 }"
| "let_all env ps as s = Some s"

definition add_trace :: "location option \<Rightarrow> addr \<Rightarrow> error \<Rightarrow> error" where
  "add_trace loc function e = Error (location e) (payload e) (trace e @ [(loc, function)])"

text \<open>
  The end of \<open>call\<close>: what the result of the body of a function becomes.
  \<^verbatim>\<open>
      if isinstance(result, Return):   return result.value
      if isinstance(result, Break):    return Error(result.location, "attempted to break ...")
      if isinstance(result, Continue): return Error(result.location, "attempted to continue ...")
      if isinstance(result, Error):    result.trace.append(...); return result
      return Null.new()
  \<close>
\<close>

definition function_result ::
  "location option \<Rightarrow> addr \<Rightarrow> control option \<times> state \<Rightarrow> (error + addr) \<times> state" where
  "function_result loc function r =
     (case r of (result, s3) \<Rightarrow>
        (case result of
           Some (Return v) \<Rightarrow> (Inr v, s3)
         | Some (Break l) \<Rightarrow> apfst Inl (Error_new l ''attempted to break outside of a loop'' s3)
         | Some (Continue l) \<Rightarrow> apfst Inl (Error_new l ''attempted to continue outside of a loop'' s3)
         | Some (Err e) \<Rightarrow> (Inl (add_trace loc function e), s3)
         | None \<Rightarrow> apfst Inr (Null_new s3)))"

definition call ::
  "host \<Rightarrow> function_table \<Rightarrow> location option \<Rightarrow> addr \<Rightarrow> addr list \<Rightarrow> state \<Rightarrow>
   ((error + addr) \<times> state) option" where
  "call h fs loc function arguments s = do {
     f \<leftarrow> value_at s function;
     case f of
       Builtin b m \<Rightarrow> do {
         (produced, s1) \<leftarrow> Builtin_call h b arguments s;
         case produced of
           Inl e \<Rightarrow> Some (Inl (add_trace loc function e), s1)
         | Inr v \<Rightarrow> Some (Inr v, s1)
       }
     | Function n fenv m \<Rightarrow>
         (let (parameters, body) = fs n in
          if length arguments \<noteq> length parameters
          then Some (apfst Inl (Error_new loc
                 (''invalid function argument count (expected '' @ show_nat (length parameters) @
                  '', received '' @ show_nat (length arguments) @ '')'') s))
          else do {
            let (env, s1) = Environment_new (Some fenv) s;
            s2 \<leftarrow> let_all env parameters arguments s1;
            r \<leftarrow> body env s2;
            Some (function_result loc function r)
          })
     | _ \<Rightarrow> None
   }"

section \<open>Expressions\<close>

text \<open>A \<open>try\<close> around an access that catches the listed exceptions and goes on with \<open>None\<close>.\<close>

definition caught :: "(exception \<Rightarrow> bool) \<Rightarrow> ((exception + addr) \<times> state) option \<Rightarrow> (addr option \<times> state) option" where
  "caught handled r =
     (case r of
        None \<Rightarrow> None
      | Some (Inr v, s) \<Rightarrow> Some (Some v, s)
      | Some (Inl e, s) \<Rightarrow> if handled e then Some (None, s) else None)"

text \<open>
  The elements of a literal are evaluated in order and copied; the shared data is
  created before them.
\<close>

fun eval_elements :: "expr list \<Rightarrow> addr \<Rightarrow> state \<Rightarrow> ((error + addr list) \<times> state) option" where
  "eval_elements [] env s = Some (Inr [], s)"
| "eval_elements (x # xs) env s = do {
     (result, s1) \<leftarrow> x env s;
     case result of
       Inl e \<Rightarrow> Some (Inl e, s1)
     | Inr v \<Rightarrow> do {
         (c, s2) \<leftarrow> copy v s1;
         (rest, s3) \<leftarrow> eval_elements xs env s2;
         case rest of
           Inl e \<Rightarrow> Some (Inl e, s3)
         | Inr cs \<Rightarrow> Some (Inr (c # cs), s3)
       }
   }"

definition AstExpressionVector_eval :: "expr list \<Rightarrow> expr" where
  "AstExpressionVector_eval elements env s = do {
     let (d, s1) = new_shared (Shared (SharedVectorData []) 0) s;
     (r, s2) \<leftarrow> eval_elements elements env s1;
     case r of
       Inl e \<Rightarrow> Some (Inl e, s2)
     | Inr vs \<Rightarrow> do {
         s3 \<leftarrow> set_body d (SharedVectorData vs) s2;
         s4 \<leftarrow> add_use d s3;
         Some (apfst Inr (new_object (Vector d (Some VECTOR_META)) s4))
       }
   }"

fun eval_items ::
  "(expr \<times> expr) list \<Rightarrow> addr \<Rightarrow> state \<Rightarrow> ((error + (val \<times> addr) list) \<times> state) option" where
  "eval_items [] env s = Some (Inr [], s)"
| "eval_items ((k, v) # kvs) env s = do {
     (k_result, s1) \<leftarrow> k env s;
     case k_result of
       Inl e \<Rightarrow> Some (Inl e, s1)
     | Inr ka \<Rightarrow> do {
         (v_result, s2) \<leftarrow> v env s1;
         case v_result of
           Inl e \<Rightarrow> Some (Inl e, s2)
         | Inr va \<Rightarrow> do {
             (c, s3) \<leftarrow> copy va s2;
             kv \<leftarrow> value_at s3 ka;
             key \<leftarrow> dict_key kv;
             (rest, s4) \<leftarrow> eval_items kvs env s3;
             case rest of
               Inl e \<Rightarrow> Some (Inl e, s4)
             | Inr items \<Rightarrow> Some (Inr ((key, c) # items), s4)
           }
       }
   }"

definition AstExpressionMap_eval :: "(expr \<times> expr) list \<Rightarrow> expr" where
  "AstExpressionMap_eval elements env s = do {
     let (d, s1) = new_shared (Shared (SharedMapData []) 0) s;
     (r, s2) \<leftarrow> eval_items elements env s1;
     case r of
       Inl e \<Rightarrow> Some (Inl e, s2)
     | Inr items \<Rightarrow> do {
         s3 \<leftarrow> set_body d (SharedMapData (foldl (\<lambda>kvs (k, v). items_set k v kvs) [] items)) s2;
         s4 \<leftarrow> add_use d s3;
         Some (apfst Inr (new_object (Map d (Some MAP_META)) s4))
       }
   }"




text \<open>\<open>AstExpressionType.eval\<close>: a metamap on the data of the map.\<close>

definition AstExpressionType_eval :: "string \<Rightarrow> location option \<Rightarrow> expr \<Rightarrow> expr" where
  "AstExpressionType_eval name expression_location expression env s = do {
     (r, s1) \<leftarrow> expression env s;
     case r of
       Inl e \<Rightarrow> Some (Inl e, s1)
     | Inr a \<Rightarrow> do {
         v \<leftarrow> value_at s1 a;
         if \<not> isinstance v MapClass then do {
           t \<leftarrow> typename s1 v;
           Some (apfst Inl (Error_new expression_location
             (''expected map-like value, received '' @ t) s1))
         } else do {
           d \<leftarrow> data_of v;
           s2 \<leftarrow> add_use d s1;
           Some (apfst Inr (new_object (MetaMap d name) s2))
         }
       }
   }"

definition AstExpressionMkref_eval :: "expr \<Rightarrow> expr" where
  "AstExpressionMkref_eval lhs env s = do {
     (result, s1) \<leftarrow> lhs env s;
     case result of
       Inl e \<Rightarrow> Some (Inl e, s1)
     | Inr a \<Rightarrow> Some (apfst Inr (Reference_new a s1))
   }"



text \<open>
  \<open>store.meta[field]\<close> inside a \<open>try\<close> that catches \<open>KeyError\<close>, when the field looked
  for is still missing and the value has a metamap.
\<close>

definition meta_lookup :: "addr option \<Rightarrow> val \<Rightarrow> val \<Rightarrow> state \<Rightarrow> (addr option \<times> state) option" where
  "meta_lookup found v field s =
     (case (found, meta v) of
        (None, Some m) \<Rightarrow> caught is_KeyError (Map_getitem m field s)
      | _ \<Rightarrow> Some (found, s))"

definition AstExpressionAccessDot_eval :: "host \<Rightarrow> location option \<Rightarrow> expr \<Rightarrow> string \<Rightarrow> expr" where
  "AstExpressionAccessDot_eval h loc store_expression name env s = do {
     (sr, s1) \<leftarrow> store_expression env s;
     case sr of
       Inl e \<Rightarrow> Some (Inl e, s1)
     | Inr store \<Rightarrow> do {
         let field = String name None;
         (r1, s2) \<leftarrow> caught is_access_error (getitem h store field s1);
         sv \<leftarrow> value_at s2 store;
         (r2, s3) \<leftarrow> meta_lookup r1 sv field s2;
         case r2 of
           Some v \<Rightarrow> Some (Inr v, s3)
         | None \<Rightarrow>
             (case sv of
                Reference deref_store m \<Rightarrow> do {
                  (r3, s4) \<leftarrow> caught is_access_error (getitem h deref_store field s3);
                  dv \<leftarrow> value_at s4 deref_store;
                  (r4, s5) \<leftarrow> meta_lookup r3 dv field s4;
                  case r4 of
                    Some v \<Rightarrow> Some (Inr v, s5)
                  | None \<Rightarrow> Some (apfst Inl (Error_new loc
                      (''invalid '' @ class_typename sv @ '' to '' @ class_typename dv @
                       '' access with field '' @ value_str h s5 field) s5))
                }
              | _ \<Rightarrow> Some (apfst Inl (Error_new loc
                  (''invalid '' @ class_typename sv @ '' access with field '' @
                   value_str h s3 field) s3)))
       }
   }"

text \<open>
  The callee of a call is a dot access (\<open>receiver.name\<close>, the method-call case) or any
  other expression.
\<close>

datatype callee = Method expr string | Callee expr

text \<open>
  The method-call case of \<open>AstExpressionFunctionCall.eval\<close>: the function looked up in
  the receiver, in its metamap, and in the metamap of its referent, and the implicit
  \<open>self\<close> argument.
\<close>

definition referent_lookup ::
  "addr option \<Rightarrow> addr \<Rightarrow> addr \<Rightarrow> val \<Rightarrow> val \<Rightarrow> state \<Rightarrow> ((addr option \<times> addr) \<times> state) option" where
  "referent_lookup found self_argument store sv field s =
     (case (found, sv) of
        (None, Reference r m) \<Rightarrow> do {
          rv \<leftarrow> value_at s r;
          case meta rv of
            None \<Rightarrow> Some ((found, self_argument), s)
          | Some rm \<Rightarrow> do {
              (f, s1) \<leftarrow> caught is_access_error (Map_getitem rm field s);
              Some ((f, store), s1)
            }
        }
      | _ \<Rightarrow> Some ((found, self_argument), s))"

definition eval_method ::
  "host \<Rightarrow> location option \<Rightarrow> expr \<Rightarrow> string \<Rightarrow> addr \<Rightarrow> state \<Rightarrow>
   ((error + addr \<times> addr) \<times> state) option" where
  "eval_method h loc store_expression name env s = do {
     (sr, s1) \<leftarrow> store_expression env s;
     case sr of
       Inl e \<Rightarrow> Some (Inl e, s1)
     | Inr store \<Rightarrow> do {
         let field = String name None;
         let (self_argument, s2) = Reference_new store s1;
         (f1, s3) \<leftarrow> caught is_access_error (getitem h store field s2);
         sv \<leftarrow> value_at s3 store;
         (f2, s4) \<leftarrow> meta_lookup f1 sv field s3;
         ((f3, self_argument'), s5) \<leftarrow> referent_lookup f2 self_argument store sv field s4;
         case f3 of
           None \<Rightarrow> Some (apfst Inl (Error_new loc
             (''invalid method access with name '' @ value_str h s5 field) s5))
         | Some function \<Rightarrow> Some (Inr (function, self_argument'), s5)
       }
   }"

fun is_callable :: "val \<Rightarrow> bool" where
  "is_callable (Function n e m) = True"
| "is_callable (Builtin b m) = True"
| "is_callable v = False"

definition AstExpressionFunctionCall_eval ::
  "host \<Rightarrow> function_table \<Rightarrow> location option \<Rightarrow> callee \<Rightarrow> expr list \<Rightarrow> expr" where
  "AstExpressionFunctionCall_eval h fs loc function arguments env s = do {
     (r, s1) \<leftarrow> (case function of
                   Method store_expression name \<Rightarrow> do {
                     (m, s1) \<leftarrow> eval_method h loc store_expression name env s;
                     case m of
                       Inl e \<Rightarrow> Some (Inl e, s1)
                     | Inr (f, self_argument) \<Rightarrow> Some (Inr (f, [self_argument]), s1)
                   }
                 | Callee expression \<Rightarrow> do {
                     (result, s1) \<leftarrow> expression env s;
                     case result of
                       Inl e \<Rightarrow> Some (Inl e, s1)
                     | Inr f \<Rightarrow> Some (Inr (f, []), s1)
                   });
     case r of
       Inl e \<Rightarrow> Some (Inl e, s1)
     | Inr (f, self_arguments) \<Rightarrow> do {
         fv \<leftarrow> value_at s1 f;
         if \<not> is_callable fv then do {
           t \<leftarrow> typename s1 fv;
           Some (apfst Inl (Error_new loc
             (''attempted to call non-function type '' @ quote t @ '' with value '' @
              value_str h s1 fv) s1))
         } else do {
           (as, s2) \<leftarrow> eval_elements arguments env s1;
           case as of
             Inl e \<Rightarrow> Some (Inl e, s2)
           | Inr copies \<Rightarrow> call h fs loc f (self_arguments @ copies) s2
         }
       }
   }"

section \<open>Division and remainder\<close>

fun is_Number :: "val \<Rightarrow> bool" where
  "is_Number (Number x m) = True"
| "is_Number v = False"

fun Number_data :: "val \<Rightarrow> number" where
  "Number_data (Number x m) = x"
| "Number_data v = NaN"

text \<open>
  Python's \<open>math.fmod\<close> on floats: the C function \<open>fmod\<close>, exact on finite operands
  (the dividend minus the divisor times the truncated quotient), except that it raises
  \<open>ValueError\<close> (\<open>None\<close>) where C gives NaN for operands that are not NaN: an infinite
  dividend, or a zero divisor.
\<close>

definition truncate :: "rat \<Rightarrow> int" where
  "truncate q = (if 0 \<le> q then \<lfloor>q\<rfloor> else \<lceil>q\<rceil>)"

fun math_fmod :: "number \<Rightarrow> number \<Rightarrow> number option" where
  "math_fmod NaN y = Some NaN"
| "math_fmod x NaN = Some NaN"
| "math_fmod (Finite a) (Finite b) =
     (if b = 0 then None else Some (Finite (a - b * of_int (truncate (a / b)))))"
| "math_fmod (Finite a) y = Some (Finite a)"
| "math_fmod x y = None"

definition binary_operands ::
  "expr \<Rightarrow> expr \<Rightarrow> addr \<Rightarrow> state \<Rightarrow> ((error + addr \<times> addr) \<times> state) option" where
  "binary_operands lhs rhs env s = do {
     (l, s1) \<leftarrow> lhs env s;
     case l of
       Inl e \<Rightarrow> Some (Inl e, s1)
     | Inr la \<Rightarrow> do {
         (r, s2) \<leftarrow> rhs env s1;
         case r of
           Inl e \<Rightarrow> Some (Inl e, s2)
         | Inr ra \<Rightarrow> Some (Inr (la, ra), s2)
       }
   }"

definition AstExpressionDiv_eval :: "host \<Rightarrow> location option \<Rightarrow> expr \<Rightarrow> expr \<Rightarrow> expr" where
  "AstExpressionDiv_eval h loc lhs rhs env s = do {
     (operands, s1) \<leftarrow> binary_operands lhs rhs env s;
     case operands of
       Inl e \<Rightarrow> Some (Inl e, s1)
     | Inr (la, ra) \<Rightarrow> do {
         lv \<leftarrow> value_at s1 la;
         rv \<leftarrow> value_at s1 ra;
         if \<not> (is_Number lv \<and> is_Number rv) then binary_type_error loc ''/'' la ra s1
         else if Number_data rv = Finite 0
         then Some (apfst Inl (Error_new loc ''division by zero'' s1))
         else Some (apfst Inr (Number_new (float_div h (Number_data lv) (Number_data rv)) s1))
       }
   }"

definition AstExpressionRem_eval :: "location option \<Rightarrow> expr \<Rightarrow> expr \<Rightarrow> expr" where
  "AstExpressionRem_eval loc lhs rhs env s = do {
     (operands, s1) \<leftarrow> binary_operands lhs rhs env s;
     case operands of
       Inl e \<Rightarrow> Some (Inl e, s1)
     | Inr (la, ra) \<Rightarrow> do {
         lv \<leftarrow> value_at s1 la;
         rv \<leftarrow> value_at s1 ra;
         if \<not> (is_Number lv \<and> is_Number rv) then binary_type_error loc ''%'' la ra s1
         else if Number_data rv = Finite 0
         then Some (apfst Inl (Error_new loc ''remainder with divisor zero'' s1))
         else do {
           x \<leftarrow> math_fmod (Number_data lv) (Number_data rv);
           Some (apfst Inr (Number_new x s1))
         }
       }
   }"


section \<open>Assignment\<close>

text \<open>The four kinds of assignment target; any other expression is not an lvalue.\<close>

datatype lvalue =
    LhsIdentifier string
  | LhsAccessIndex expr expr
  | LhsAccessDot expr string
  | LhsAccessScope expr string
  | LhsOther

text \<open>
  The \<open>store\<close> and the \<open>field\<close> that the first half of \<open>AstStatementAssignment.eval\<close>
  works out: the store of the environment that owns an identifier, or a value and a key.
\<close>

datatype target = InEnvironment addr string | InValue addr val

definition assignment_target ::
  "location option \<Rightarrow> lvalue \<Rightarrow> addr \<Rightarrow> state \<Rightarrow> ((error + target) \<times> state) option" where
  "assignment_target loc lhs env s =
     (case lhs of
        LhsIdentifier name \<Rightarrow> do {
          lookup \<leftarrow> Environment_lookup s name env;
          case lookup of
            None \<Rightarrow> Some (apfst Inl (Error_new loc
              (''identifier '' @ quote name @ '' is not defined'') s))
          | Some (v, owner) \<Rightarrow> Some (Inr (InEnvironment owner name), s)
        }
      | LhsAccessIndex store_expression field_expression \<Rightarrow> do {
          (lhs_store, s1) \<leftarrow> store_expression env s;
          case lhs_store of
            Inl e \<Rightarrow> Some (Inl e, s1)
          | Inr store \<Rightarrow> do {
              (lhs_field, s2) \<leftarrow> field_expression env s1;
              case lhs_field of
                Inl e \<Rightarrow> Some (Inl e, s2)
              | Inr field \<Rightarrow> do {
                  fv \<leftarrow> value_at s2 field;
                  Some (Inr (InValue store fv), s2)
                }
            }
        }
      | LhsAccessDot store_expression name \<Rightarrow> do {
          (lhs_store, s1) \<leftarrow> store_expression env s;
          case lhs_store of
            Inl e \<Rightarrow> Some (Inl e, s1)
          | Inr store \<Rightarrow> Some (Inr (InValue store (String name None)), s1)
        }
      | LhsAccessScope store_expression name \<Rightarrow> do {
          (lhs_store, s1) \<leftarrow> store_expression env s;
          case lhs_store of
            Inl e \<Rightarrow> Some (Inl e, s1)
          | Inr store \<Rightarrow> Some (Inr (InValue store (String name None)), s1)
        }
      | LhsOther \<Rightarrow> Some (apfst Inl (Error_new loc ''attempted assignment to non-lvalue'' s)))"

fun is_dot :: "lvalue \<Rightarrow> bool" where
  "is_dot (LhsAccessDot store_expression name) = True"
| "is_dot lhs = False"

definition AstStatementAssignment_eval :: "host \<Rightarrow> location option \<Rightarrow> lvalue \<Rightarrow> expr \<Rightarrow> stmt" where
  "AstStatementAssignment_eval h loc lhs rhs_expression env s = do {
     (t, s1) \<leftarrow> assignment_target loc lhs env s;
     case t of
       Inl e \<Rightarrow> Some (Some (Err e), s1)
     | Inr tgt \<Rightarrow> do {
         (r, s2) \<leftarrow> rhs_expression env s1;
         case r of
           Inl e \<Rightarrow> Some (Some (Err e), s2)
         | Inr rhs \<Rightarrow>
             (case tgt of
                InEnvironment owner name \<Rightarrow> do {
                  (c, s3) \<leftarrow> copy rhs s2;
                  s4 \<leftarrow> Environment_let owner name c s3;
                  Some (None, s4)
                }
              | InValue store field \<Rightarrow> do {
                  sv \<leftarrow> value_at s2 store;
                  if isinstance sv VectorClass \<or> isinstance sv MapClass then do {
                    (c, s3) \<leftarrow> copy rhs s2;
                    (done, s4) \<leftarrow> setitem h store field c s3;
                    case done of
                      Inr u \<Rightarrow> Some (None, s4)
                    | Inl e \<Rightarrow>
                        if is_IndexError e
                        then Some (apfst (\<lambda>e. Some (Err e)) (Error_new loc
                               (''invalid '' @ class_typename sv @ '' access with index '' @
                                value_str h s4 field) s4))
                        else do {
                          message \<leftarrow> exception_str h s4 e;
                          Some (apfst (\<lambda>e. Some (Err e)) (Error_new loc message s4))
                        }
                  } else
                    (case (is_dot lhs, sv) of
                       (True, Reference deref_store m) \<Rightarrow> do {
                         dv \<leftarrow> value_at s2 deref_store;
                         (c, s3) \<leftarrow> copy rhs s2;
                         (done, s4) \<leftarrow> setitem h deref_store field c s3;
                         case done of
                           Inr u \<Rightarrow> Some (None, s4)
                         | Inl e \<Rightarrow>
                             if is_access_error e
                             then Some (apfst (\<lambda>e. Some (Err e)) (Error_new loc
                                    (''invalid '' @ class_typename sv @ '' to '' @ class_typename dv @
                                     '' access with field '' @ value_str h s4 field) s4))
                             else do {
                               message \<leftarrow> exception_str h s4 e;
                               Some (apfst (\<lambda>e. Some (Err e)) (Error_new loc message s4))
                             }
                       }
                     | _ \<Rightarrow> do {
                         st \<leftarrow> typename s2 sv;
                         ft \<leftarrow> typename s2 field;
                         Some (apfst (\<lambda>e. Some (Err e)) (Error_new loc
                           (''attempted access into type '' @ quote st @ '' with type '' @ quote ft) s2))
                       })
                })
       }
   }"

section \<open>The \<open>for\<close> statement\<close>

text \<open>
  \<open>Value.metafunction(name)\<close>: the entry of the metamap under the name, when there is
  one and it is a function or a builtin.
\<close>

definition metafunction :: "state \<Rightarrow> val \<Rightarrow> val \<Rightarrow> addr option option" where
  "metafunction s v name =
     (case meta v of
        None \<Rightarrow> Some None
      | Some m \<Rightarrow> do {
          mv \<leftarrow> value_at s m;
          d \<leftarrow> data_of mv;
          kvs \<leftarrow> map_data s d;
          case items_get name kvs of
            None \<Rightarrow> Some None
          | Some f \<Rightarrow> do {
              fv \<leftarrow> value_at s f;
              Some (if is_callable fv then Some f else None)
            }
        })"

text \<open>
  What every loop of the statement does with the result of the block:
  \<^verbatim>\<open>
      if isinstance(result, Return):   return result
      if isinstance(result, Break):    return None
      if isinstance(result, Continue): continue
      if isinstance(result, Error):    return result
  \<close>
  \<open>Some\<close> is the value returned, \<open>None\<close> goes on with the loop.
\<close>

fun loop_exit :: "control option \<Rightarrow> control option option" where
  "loop_exit (Some (Return v)) = Some (Some (Return v))"
| "loop_exit (Some (Break l)) = Some None"
| "loop_exit (Some (Continue l)) = None"
| "loop_exit (Some (Err e)) = Some (Some (Err e))"
| "loop_exit None = None"

text \<open>
  A Python \<open>for\<close> over a list made before the loop starts: each item is bound in the
  loop environment by \<open>binding\<close>, then the block runs.
\<close>

fun for_each ::
  "('a \<Rightarrow> addr \<Rightarrow> state \<Rightarrow> state option) \<Rightarrow> stmt \<Rightarrow> addr \<Rightarrow> 'a list \<Rightarrow> state \<Rightarrow>
   (control option \<times> state) option" where
  "for_each binding block loop_env [] s = Some (None, s)"
| "for_each binding block loop_env (x # xs) s = do {
     s1 \<leftarrow> binding x loop_env s;
     (result, s2) \<leftarrow> block loop_env s1;
     case loop_exit result of
       Some r \<Rightarrow> Some (r, s2)
     | None \<Rightarrow> for_each binding block loop_env xs s2
   }"

text \<open>The \<open>while True\<close> loop over a user-defined iterator.\<close>

partial_function (option) iterate ::
  "host \<Rightarrow> function_table \<Rightarrow> location option \<Rightarrow> addr \<Rightarrow> addr \<Rightarrow> string \<Rightarrow> stmt \<Rightarrow> addr \<Rightarrow>
   state \<Rightarrow> (control option \<times> state) option" where
  "iterate h fs loc next_function reference identifier_k block loop_env s = do {
     (iterated, s1) \<leftarrow> call h fs loc next_function [reference] s;
     case iterated of
       Inl e \<Rightarrow> do {
         pv \<leftarrow> value_at s1 (payload e);
         case pv of
           Null m \<Rightarrow> Some (None, s1)
         | _ \<Rightarrow> Some (Some (Err e), s1)
       }
     | Inr v \<Rightarrow> do {
         s2 \<leftarrow> Environment_let loop_env identifier_k v s1;
         (result, s3) \<leftarrow> block loop_env s2;
         case loop_exit result of
           Some r \<Rightarrow> Some (r, s3)
         | None \<Rightarrow> iterate h fs loc next_function reference identifier_k block loop_env s3
       }
   }"

declare iterate.simps [code]

text \<open>The bindings of the induction variables, one definition per kind of collection.\<close>

definition bind_number :: "string \<Rightarrow> int \<Rightarrow> addr \<Rightarrow> state \<Rightarrow> state option" where
  "bind_number identifier_k i loop_env s = do {
     x \<leftarrow> float_of_int i;
     let (k, s1) = Number_new x s;
     Environment_let loop_env identifier_k k s1
   }"

definition bind_element :: "string \<Rightarrow> bool \<Rightarrow> addr \<Rightarrow> addr \<Rightarrow> state \<Rightarrow> state option" where
  "bind_element identifier k_is_reference x loop_env s = do {
     (k, s1) \<leftarrow> (if k_is_reference then Some (Reference_new x s) else copy x s);
     Environment_let loop_env identifier k s1
   }"

definition bind_item ::
  "string \<Rightarrow> string option \<Rightarrow> bool \<Rightarrow> val \<times> addr \<Rightarrow> addr \<Rightarrow> state \<Rightarrow> state option" where
  "bind_item identifier_k identifier_v v_is_reference item loop_env s = do {
     let (k, s1) = new_object (fst item) s;
     s2 \<leftarrow> Environment_let loop_env identifier_k k s1;
     case identifier_v of
       None \<Rightarrow> Some s2
     | Some name \<Rightarrow> bind_element name v_is_reference (snd item) loop_env s2
   }"

definition bind_key :: "string \<Rightarrow> val \<Rightarrow> addr \<Rightarrow> state \<Rightarrow> state option" where
  "bind_key identifier_k x loop_env s =
     (let (k, s1) = new_object x s in Environment_let loop_env identifier_k k s1)"

definition for_error ::
  "location option \<Rightarrow> string \<Rightarrow> state \<Rightarrow> (control option \<times> state) option" where
  "for_error loc message s = Some (apfst (\<lambda>e. Some (Err e)) (Error_new loc message s))"

definition for_type_error ::
  "location option \<Rightarrow> string \<Rightarrow> val \<Rightarrow> state \<Rightarrow> (control option \<times> state) option" where
  "for_type_error loc message collection s = do {
     t \<leftarrow> typename s collection;
     for_error loc (message @ quote t) s
   }"

definition AstStatementFor_eval ::
  "host \<Rightarrow> function_table \<Rightarrow> location option \<Rightarrow> string \<Rightarrow> string option \<Rightarrow> bool \<Rightarrow> bool \<Rightarrow>
   expr \<Rightarrow> stmt \<Rightarrow> stmt" where
  "AstStatementFor_eval h fs loc identifier_k identifier_v k_is_reference v_is_reference
     collection_expression block env s = do {
     (r, s1) \<leftarrow> collection_expression env s;
     case r of
       Inl e \<Rightarrow> Some (Some (Err e), s1)
     | Inr evaluated \<Rightarrow> do {
         (collection, s2) \<leftarrow> copy evaluated s1;
         let (loop_env, s3) = Environment_new (Some env) s2;
         cv \<leftarrow> value_at s3 collection;
         next_function \<leftarrow> metafunction s3 cv (String ''next'' None);
         case next_function of
           Some f \<Rightarrow>
             if identifier_v \<noteq> None
             then for_type_error loc ''attempted key-value iteration over iterator '' cv s3
             else if k_is_reference
             then for_type_error loc ''cannot use a key-reference over iterator '' cv s3
             else (let (reference, s4) = Reference_new collection s3
                   in iterate h fs loc f reference identifier_k block loop_env s4)
         | None \<Rightarrow>
             (case cv of
                Number x m \<Rightarrow>
                  if identifier_v \<noteq> None
                  then for_type_error loc ''attempted key-value iteration over type '' cv s3
                  else if k_is_reference
                  then for_type_error loc ''cannot use a key-reference over type '' cv s3
                  else if \<not> is_integer x
                  then for_error loc
                         (''attempted iteration over non-integer number '' @ quote (value_str h s3 cv)) s3
                  else for_each (bind_number identifier_k) block loop_env
                         (map int [0..<nat (int_of x)]) s3
              | Vector d m \<Rightarrow>
                  if identifier_v \<noteq> None
                  then for_type_error loc ''attempted key-value iteration over type '' cv s3
                  else do {
                    xs \<leftarrow> vector_data s3 d;
                    for_each (bind_element identifier_k k_is_reference) block loop_env xs s3
                  }
              | Map d m \<Rightarrow>
                  if k_is_reference
                  then for_type_error loc ''cannot use a key-reference over type '' cv s3
                  else do {
                    kvs \<leftarrow> map_data s3 d;
                    for_each (bind_item identifier_k identifier_v v_is_reference) block loop_env kvs s3
                  }
              | MetaMap d n \<Rightarrow>
                  if k_is_reference
                  then for_type_error loc ''cannot use a key-reference over type '' cv s3
                  else do {
                    kvs \<leftarrow> map_data s3 d;
                    for_each (bind_item identifier_k identifier_v v_is_reference) block loop_env kvs s3
                  }
              | Set d m \<Rightarrow>
                  if identifier_v \<noteq> None
                  then for_type_error loc ''attempted key-value iteration over type '' cv s3
                  else if k_is_reference
                  then for_type_error loc ''cannot use a key-reference over type '' cv s3
                  else do {
                    ks \<leftarrow> set_data s3 d;
                    for_each (bind_key identifier_k) block loop_env ks s3
                  }
              | _ \<Rightarrow> for_type_error loc ''attempted iteration over type '' cv s3)
       }
   }"

section \<open>The stringifier of numbers\<close>

text \<open>Python's \<open>string[i]\<close>: a negative index counts from the end.\<close>

definition string_index :: "string \<Rightarrow> int \<Rightarrow> exception + char" where
  "string_index string i =
     (case list_index string i of
        None \<Rightarrow> Inl (IndexError ''string index out of range'')
      | Some j \<Rightarrow> Inr (string ! j))"

text \<open>\<open>string.find(".")\<close>: the first position of the character, or -1.\<close>

fun find_char :: "char \<Rightarrow> string \<Rightarrow> int" where
  "find_char c [] = -1"
| "find_char c (x # xs) =
     (if x = c then 0 else (let i = find_char c xs in if i < 0 then -1 else i + 1))"

text \<open>
  \<^verbatim>\<open>
      while string[end - 1] == "0":
          end -= 1  # Remove trailing zeros.
  \<close>
\<close>

function strip_zeros :: "string \<Rightarrow> int \<Rightarrow> exception + int" where
  "strip_zeros string end =
     (case string_index string (end - 1) of
        Inl e \<Rightarrow> Inl e
      | Inr c \<Rightarrow> if c = CHR ''0'' then strip_zeros string (end - 1) else Inr end)"
  by pat_completeness auto
termination
  by (relation "measure (\<lambda>(string, end). nat (end + int (length string)))")
     (auto simp: string_index_def list_index_def Let_def split: if_splits option.splits)

text \<open>The part of \<open>Number.__str__\<close> after \<open>string = str(self.data)\<close>.\<close>

definition trim_number :: "string \<Rightarrow> exception + string" where
  "trim_number string =
     (let dot = find_char CHR ''.'' string in
      case strip_zeros string (int (length string)) of
        Inl e \<Rightarrow> Inl e
      | Inr end \<Rightarrow>
          (let end' = (if dot = end - 1 then end - 1 else end) in
           Inr (take (nat (if end' < 0 then max 0 (int (length string) + end') else end')) string)))"

definition Number_str :: "host \<Rightarrow> number \<Rightarrow> exception + string" where
  "Number_str h data =
     (case data of
        NaN \<Rightarrow> Inr ''NaN''
      | PosInf \<Rightarrow> Inr ''Inf''
      | NegInf \<Rightarrow> Inr ''-Inf''
      | Finite q \<Rightarrow> trim_number (float_str h data))"


section \<open>A start state and example programs\<close>

text \<open>
  The state after start-up, cut down to what is modelled: the nine metamaps of the
  fundamental types with the modelled builtins as their methods, the builtin objects,
  the numbers \<open>NaN\<close> and \<open>Inf\<close> of the base environment, the base environment itself
  (address 0) and the environment of a program (address 1).
\<close>

definition entry :: "string \<Rightarrow> addr \<Rightarrow> val \<times> addr" where
  "entry name a = (String name None, a)"

definition start_state :: state where
  "start_state = \<lparr>
     objects =
       [MetaMap 0 ''function'', MetaMap 1 ''boolean'', MetaMap 2 ''number'',
        MetaMap 3 ''string'', MetaMap 4 ''function'', MetaMap 5 ''vector'',
        MetaMap 6 ''map'', MetaMap 7 ''set'', MetaMap 8 ''reference'',
        Builtin vector_count (Some FUNCTION_META), Builtin vector_push (Some FUNCTION_META),
        Builtin vector_pop (Some FUNCTION_META), Builtin vector_insert (Some FUNCTION_META),
        Builtin vector_remove (Some FUNCTION_META), Builtin map_count (Some FUNCTION_META),
        Builtin map_insert (Some FUNCTION_META), Builtin map_remove (Some FUNCTION_META),
        Builtin set_count (Some FUNCTION_META), Builtin set_insert (Some FUNCTION_META),
        Builtin set_remove (Some FUNCTION_META),
        Number NaN (Some NUMBER_META), Number PosInf (Some NUMBER_META)],
     shareds =
       [Shared (SharedMapData []) 1, Shared (SharedMapData []) 1, Shared (SharedMapData []) 1,
        Shared (SharedMapData []) 1, Shared (SharedMapData []) 1,
        Shared (SharedMapData [entry ''count'' 9, entry ''push'' 10, entry ''pop'' 11,
                               entry ''insert'' 12, entry ''remove'' 13]) 1,
        Shared (SharedMapData [entry ''count'' 14, entry ''insert'' 15, entry ''remove'' 16]) 1,
        Shared (SharedMapData [entry ''count'' 17, entry ''insert'' 18, entry ''remove'' 19]) 1,
        Shared (SharedMapData []) 1],
     environments =
       [Environment None
          [(''boolean'', 1), (''number'', 2), (''string'', 3), (''regexp'', 4), (''vector'', 5),
           (''map'', 6), (''set'', 7), (''reference'', 8), (''NaN'', 20), (''Inf'', 21)],
        Environment (Some 0) []]
   \<rparr>"

text \<open>A host whose functions give fixed strings and NaN: no property depends on them.\<close>

definition some_host :: host where
  "some_host = \<lparr>value_str = (\<lambda>s v. ''?''), str_repr = (\<lambda>m. m), float_str = (\<lambda>x. ''?''),
                 float_div = (\<lambda>x y. NaN)\<rparr>"

text \<open>The literals \<open>true\<close>, \<open>false\<close>, a number and a string, as the parser builds them.\<close>

definition true_literal :: expr where
  "true_literal = AstExpressionBoolean_eval (Boolean True (Some BOOLEAN_META))"

definition false_literal :: expr where
  "false_literal = AstExpressionBoolean_eval (Boolean False (Some BOOLEAN_META))"

definition number_literal :: "rat \<Rightarrow> expr" where
  "number_literal q = AstExpressionNumber_eval (Number (Finite q) (Some NUMBER_META))"

definition string_literal :: "string \<Rightarrow> expr" where
  "string_literal t = AstExpressionString_eval (String t (Some STRING_META))"

definition variable :: "string \<Rightarrow> expr" where
  "variable name = AstExpressionIdentifier_eval None name"

text \<open>An expression or statement that never gives a result.\<close>

definition diverges :: "'a eval" where
  "diverges env s = None"

text \<open>What a value looks like after an evaluation: the object at the resulting address.\<close>

definition result_value :: "((error + addr) \<times> state) option \<Rightarrow> val option" where
  "result_value r = (case r of Some (Inr a, s) \<Rightarrow> value_at s a | _ \<Rightarrow> None)"

text \<open>The blocks \<open>{ error "boom"; }\<close>, \<open>{ return e; }\<close>, \<open>{ return 1; }\<close> and \<open>{ }\<close>.\<close>

definition error_block :: stmt where
  "error_block = AstBlock_eval [AstStatementError_eval None (string_literal ''boom'')]"

definition return_e_block :: stmt where
  "return_e_block = AstBlock_eval [AstStatementReturn_eval (Some (variable ''e''))]"

definition return_1_block :: stmt where
  "return_1_block = AstBlock_eval [AstStatementReturn_eval (Some (number_literal 1))]"

definition empty_block :: stmt where
  "empty_block = AstBlock_eval []"

text \<open>
  The value a decimal numeral denotes: digits, an optional fraction, an optional
  exponent. This is the reading of a printed number that the stringifier is held to.
\<close>

fun digit_value :: "char \<Rightarrow> nat option" where
  "digit_value c =
     (let n = (of_char c :: nat) in if 48 \<le> n \<and> n \<le> 57 then Some (n - 48) else None)"

fun digits_value :: "nat \<Rightarrow> string \<Rightarrow> nat option" where
  "digits_value acc [] = Some acc"
| "digits_value acc (c # cs) =
     (case digit_value c of None \<Rightarrow> None | Some d \<Rightarrow> digits_value (10 * acc + d) cs)"

definition natural_value :: "string \<Rightarrow> nat option" where
  "natural_value cs = (if cs = [] then None else digits_value 0 cs)"

definition signed :: "(string \<Rightarrow> rat option) \<Rightarrow> string \<Rightarrow> rat option" where
  "signed f cs =
     (case cs of
        c # rest \<Rightarrow>
          if c = CHR ''-'' then map_option uminus (f rest)
          else if c = CHR ''+'' then f rest
          else f cs
      | [] \<Rightarrow> None)"

definition fraction_value :: "string \<Rightarrow> rat option" where
  "fraction_value cs =
     (let whole = takeWhile (\<lambda>c. c \<noteq> CHR ''.'') cs; rest = dropWhile (\<lambda>c. c \<noteq> CHR ''.'') cs in
      case rest of
        [] \<Rightarrow> map_option of_nat (natural_value whole)
      | dot # decimals \<Rightarrow>
          (case (natural_value whole, natural_value decimals) of
             (Some w, Some f) \<Rightarrow> Some (of_nat w + of_nat f / 10 ^ length decimals)
           | _ \<Rightarrow> None))"

definition denoted :: "string \<Rightarrow> rat option" where
  "denoted cs =
     (let mantissa = takeWhile (\<lambda>c. c \<noteq> CHR ''e'') cs; rest = dropWhile (\<lambda>c. c \<noteq> CHR ''e'') cs in
      case rest of
        [] \<Rightarrow> signed fraction_value mantissa
      | e # exponent \<Rightarrow>
          (case (signed fraction_value mantissa,
                 signed (\<lambda>ds. map_option of_nat (natural_value ds)) exponent) of
             (Some m, Some x) \<Rightarrow> Some (if 0 \<le> x then m * 10 ^ nat \<lfloor>x\<rfloor> else m / 10 ^ nat \<lfloor>- x\<rfloor>)
           | _ \<Rightarrow> None))"

text \<open>
  C's \<open>fmod\<close>, as the standard defines it: NaN for a NaN operand, for an infinite
  dividend and for a zero divisor; the dividend for an infinite divisor; otherwise the
  dividend minus the divisor times the truncated quotient.
\<close>

fun c_fmod :: "number \<Rightarrow> number \<Rightarrow> number" where
  "c_fmod NaN y = NaN"
| "c_fmod x NaN = NaN"
| "c_fmod (Finite a) (Finite b) = (if b = 0 then NaN else Finite (a - b * of_int (truncate (a / b))))"
| "c_fmod (Finite a) y = Finite a"
| "c_fmod x y = NaN"


section \<open>Observing a state\<close>

text \<open>
  What a script can see of a value, to a given depth: the data of a scalar, the views
  of the elements of a vector, the keys and the views of the values of a map, the
  elements of a set, the view of the referent of a reference. Addresses, use counters
  and metamaps are not part of it.
\<close>

datatype view =
    VNull
  | VBoolean bool
  | VNumber number
  | VString string
  | VVector "view list"
  | VMap "(val \<times> view) list"
  | VSet "val list"
  | VReference view
  | VFunction
  | VNothing

fun view_of :: "nat \<Rightarrow> state \<Rightarrow> addr \<Rightarrow> view" where
  "view_of 0 s a = VNothing"
| "view_of (Suc n) s a =
     (case value_at s a of
        None \<Rightarrow> VNothing
      | Some (Null m) \<Rightarrow> VNull
      | Some (Boolean b m) \<Rightarrow> VBoolean b
      | Some (Number x m) \<Rightarrow> VNumber x
      | Some (String t m) \<Rightarrow> VString t
      | Some (Vector d m) \<Rightarrow>
          (case vector_data s d of None \<Rightarrow> VNothing | Some xs \<Rightarrow> VVector (map (view_of n s) xs))
      | Some (Map d m) \<Rightarrow>
          (case map_data s d of
             None \<Rightarrow> VNothing
           | Some kvs \<Rightarrow> VMap (map (\<lambda>kv. (fst kv, view_of n s (snd kv))) kvs))
      | Some (MetaMap d name) \<Rightarrow>
          (case map_data s d of
             None \<Rightarrow> VNothing
           | Some kvs \<Rightarrow> VMap (map (\<lambda>kv. (fst kv, view_of n s (snd kv))) kvs))
      | Some (Set d m) \<Rightarrow> (case set_data s d of None \<Rightarrow> VNothing | Some ks \<Rightarrow> VSet ks)
      | Some (Reference r m) \<Rightarrow> VReference (view_of n s r)
      | Some (Function f e m) \<Rightarrow> VFunction
      | Some (Builtin b m) \<Rightarrow> VFunction)"

text \<open>
  A program is run in the environment at address 1 of the start state; \<open>seen\<close> is the
  view of a variable of that environment after the run (when the run completes normally).
\<close>

definition run :: "stmt list \<Rightarrow> (control option \<times> state) option" where
  "run statements = eval_statements statements 1 start_state"

definition state_after :: "stmt list \<Rightarrow> state" where
  "state_after statements = (case run statements of Some (r, s) \<Rightarrow> s | None \<Rightarrow> start_state)"

definition seen :: "string \<Rightarrow> stmt list \<Rightarrow> view option" where
  "seen name statements =
     (case run statements of
        Some (None, s) \<Rightarrow>
          (case Environment_get s name 1 of Some (Some a) \<Rightarrow> Some (view_of 5 s a) | _ \<Rightarrow> None)
      | _ \<Rightarrow> None)"

text \<open>Numbers as a script sees them, and the call of a method on a variable.\<close>

definition numbers :: "rat list \<Rightarrow> view" where
  "numbers qs = VVector (map (\<lambda>q. VNumber (Finite q)) qs)"

definition no_functions :: function_table where
  "no_functions n = ([], diverges)"

definition method_call :: "string \<Rightarrow> string \<Rightarrow> expr list \<Rightarrow> stmt" where
  "method_call receiver name arguments =
     AstStatementExpression_eval
       (AstExpressionFunctionCall_eval some_host no_functions None
          (Method (variable receiver) name) arguments)"

definition vector_literal :: "rat list \<Rightarrow> expr" where
  "vector_literal qs = AstExpressionVector_eval (map number_literal qs)"

definition for_in ::
  "string \<Rightarrow> expr \<Rightarrow> stmt list \<Rightarrow> stmt" where
  "for_in k collection statements =
     AstStatementFor_eval some_host no_functions None k None False False collection
       (AstBlock_eval statements)"


text \<open>The block \<open>{ v.push(k); }\<close> and the programs around it.\<close>

definition push_k_block :: stmt where
  "push_k_block = AstBlock_eval [method_call ''v'' ''push'' [variable ''k'']]"

definition let_empty_v :: stmt where
  "let_empty_v = AstStatementLet_eval ''v'' (vector_literal [])"

text \<open>
  The state after \<open>let v = [];\<close>, and the state in which the loop of \<open>for k in q\<close>
  starts there: the copy of the number and the loop environment have been added.
\<close>

definition vector_state :: state where
  "vector_state = state_after [let_empty_v]"

definition loop_state :: "rat \<Rightarrow> state" where
  "loop_state q =
     vector_state\<lparr>objects := objects vector_state @
         [Number (Finite q) (Some NUMBER_META), Number (Finite q) (Some NUMBER_META)],
       environments := environments vector_state @ [Environment (Some 1) []]\<rparr>"

text \<open>
  The program \<open>let T = type {"a": 1}; let r = T.&;\<close> and the state after it; the
  assignments \<open>vector[1] = 2;\<close>, \<open>T.a = 2;\<close> and \<open>r.a = 2;\<close>.
\<close>

definition let_type :: "stmt list" where
  "let_type =
     [AstStatementLet_eval ''T''
        (AstExpressionType_eval ''type'' None
           (AstExpressionMap_eval [(string_literal ''a'', number_literal 1)])),
      AstStatementLet_eval ''r'' (AstExpressionMkref_eval (variable ''T''))]"

definition type_state :: state where
  "type_state = state_after let_type"

definition assign_index :: "string \<Rightarrow> rat \<Rightarrow> rat \<Rightarrow> stmt" where
  "assign_index name i q =
     AstStatementAssignment_eval some_host None
       (LhsAccessIndex (variable name) (number_literal i)) (number_literal q)"

definition assign_dot :: "string \<Rightarrow> string \<Rightarrow> rat \<Rightarrow> stmt" where
  "assign_dot name field q =
     AstStatementAssignment_eval some_host None (LhsAccessDot (variable name) field) (number_literal q)"

definition try_only :: "stmt \<Rightarrow> stmt" where
  "try_only statement = AstStatementTry_eval (AstBlock_eval [statement]) None empty_block"


section \<open>What an evaluation leaves as it was\<close>

text \<open>
  \<open>kept s s'\<close>: every object of \<open>s\<close> is in \<open>s'\<close> with the same fields, and every shared
  datum of \<open>s\<close> is in \<open>s'\<close> with the same contents (its use counter may differ). All
  that a script can see from the objects of \<open>s\<close> is then the same in \<open>s'\<close>.
  \<open>changes A B s s'\<close> excepts the objects at the addresses \<open>A\<close> and the contents of
  the shared data at the addresses \<open>B\<close>, and has the environments as they were.
\<close>

definition kept :: "state \<Rightarrow> state \<Rightarrow> bool" where
  "kept s s' \<longleftrightarrow>
     take (length (objects s)) (objects s') = objects s \<and>
     map body (take (length (shareds s)) (shareds s')) = map body (shareds s)"

definition changes :: "addr set \<Rightarrow> addr set \<Rightarrow> state \<Rightarrow> state \<Rightarrow> bool" where
  "changes A B s s' \<longleftrightarrow>
     length (objects s) \<le> length (objects s') \<and>
     (\<forall>a < length (objects s). a \<notin> A \<longrightarrow> objects s' ! a = objects s ! a) \<and>
     length (shareds s) \<le> length (shareds s') \<and>
     (\<forall>d < length (shareds s). d \<notin> B \<longrightarrow> body (shareds s' ! d) = body (shareds s ! d)) \<and>
     environments s' = environments s"



definition elements :: "state \<Rightarrow> addr \<Rightarrow> addr list option" where
  "elements s a = do {
     v \<leftarrow> value_at s a;
     d \<leftarrow> data_of v;
     vector_data s d
   }"






definition pair_state :: state where
  "pair_state = state_after [AstStatementLet_eval ''v'' (vector_literal [1, 2])]"


text \<open>
  The loop as the specification words it, to be compared with \<open>for_each\<close>: the elements
  at the indices \<open>i\<close>, \<open>i + 1\<close>, ... of a sequence \<open>xs\<close> that was captured before the
  loop are bound one after the other, \<open>n\<close> of them, and the block runs after each
  binding; the loop ends early when the block returns, breaks or fails.
\<close>

primrec visit_captured ::
  "('a \<Rightarrow> addr \<Rightarrow> state \<Rightarrow> state option) \<Rightarrow> stmt \<Rightarrow> addr \<Rightarrow> 'a list \<Rightarrow> nat \<Rightarrow> nat \<Rightarrow> state \<Rightarrow>
   (control option \<times> state) option" where
  "visit_captured binding block loop_env xs i 0 s = Some (None, s)"
| "visit_captured binding block loop_env xs i (Suc n) s = do {
     s1 \<leftarrow> binding (xs ! i) loop_env s;
     (result, s2) \<leftarrow> block loop_env s1;
     case loop_exit result of
       Some r \<Rightarrow> Some (r, s2)
     | None \<Rightarrow> visit_captured binding block loop_env xs (Suc i) n s2
   }"

text \<open>
  The loops \<open>for x in v { log.push(x); v.push(x); }\<close>, \<open>for x in v { log.push(x); v.pop(); }\<close>
  and \<open>for x in v { log.push(x); v[1] = 9; }\<close>, after \<open>let v = [1, 2]; let log = [];\<close>.
\<close>

definition logging_loop :: "stmt \<Rightarrow> stmt list" where
  "logging_loop statement =
     [AstStatementLet_eval ''v'' (vector_literal [1, 2]),
      AstStatementLet_eval ''log'' (vector_literal []),
      for_in ''x'' (variable ''v'') [method_call ''log'' ''push'' [variable ''x''], statement]]"








section \<open>Properties\<close>

subsection \<open>The logical operators\<close>

lemma Boolean_new_value:
  "value_at (snd (Boolean_new b s)) (fst (Boolean_new b s)) = Some (Boolean b (Some BOOLEAN_META))"
  by (simp add: Boolean_new_def new_object_def value_at_def)

text \<open>
  C8 (short-circuit evaluation). When the left operand of \<open>and\<close> evaluates to the
  Boolean false, the result is a new Boolean false in the state the left operand left
  behind; when the left operand of \<open>or\<close> evaluates to the Boolean true, the result is a
  new Boolean true in that state. The right operand does not occur on the right-hand
  sides: it is not evaluated, whatever it would do (change the state, fail, or never
  return).
\<close>

theorem short_circuit:
  assumes "lhs env s = Some (Inr a, s1)"
    and "value_at s1 a = Some (Boolean b m)"
  shows "(\<not> b \<longrightarrow> AstExpressionAnd_eval loc lhs rhs env s = Some (apfst Inr (Boolean_new False s1)))
       \<and> (b \<longrightarrow> AstExpressionOr_eval loc lhs rhs env s = Some (apfst Inr (Boolean_new True s1)))"
  using assms by (simp add: AstExpressionAnd_eval_def AstExpressionOr_eval_def)

theorem short_circuit_witness:
  "AstExpressionAnd_eval None false_literal diverges 1 start_state
     = Some (apfst Inr (Boolean_new False (snd (new_object (Boolean False (Some BOOLEAN_META)) start_state))))
   \<and> AstExpressionOr_eval None true_literal diverges 1 start_state
     = Some (apfst Inr (Boolean_new True (snd (new_object (Boolean True (Some BOOLEAN_META)) start_state))))"
proof -
  let ?f = "snd (new_object (Boolean False (Some BOOLEAN_META)) start_state)"
  let ?t = "snd (new_object (Boolean True (Some BOOLEAN_META)) start_state)"
  have f: "false_literal 1 start_state = Some (Inr (length (objects start_state)), ?f)"
    by (simp add: false_literal_def AstExpressionBoolean_eval_def new_object_def)
  have t: "true_literal 1 start_state = Some (Inr (length (objects start_state)), ?t)"
    by (simp add: true_literal_def AstExpressionBoolean_eval_def new_object_def)
  have fv: "value_at ?f (length (objects start_state)) = Some (Boolean False (Some BOOLEAN_META))"
    by (simp add: new_object_def value_at_def)
  have tv: "value_at ?t (length (objects start_state)) = Some (Boolean True (Some BOOLEAN_META))"
    by (simp add: new_object_def value_at_def)
  from short_circuit [where lhs = false_literal and env = 1 and s = start_state
        and loc = None and rhs = diverges, OF f fv]
    short_circuit [where lhs = true_literal and env = 1 and s = start_state
        and loc = None and rhs = diverges, OF t tv]
  show ?thesis by simp
qed

text \<open>
  C2 (both operands of \<open>and\<close> and \<open>or\<close> are Booleans). The check of the right
  operand for the deciding value comes before the check of the types: \<open>1 and false\<close>
  evaluates to the Boolean false and \<open>1 or true\<close> to the Boolean true, although the
  left operand is a number; \<open>1 and true\<close> is the type error.
\<close>

theorem logical_operator_accepts_number:
  "result_value (AstExpressionAnd_eval None (number_literal 1) false_literal 1 start_state)
     = Some (Boolean False (Some BOOLEAN_META))
   \<and> result_value (AstExpressionOr_eval None (number_literal 1) true_literal 1 start_state)
     = Some (Boolean True (Some BOOLEAN_META))
   \<and> result_value (AstExpressionAnd_eval None (number_literal 1) true_literal 1 start_state) = None"
  by code_simp

subsection \<open>The \<open>try\<close> statement\<close>

text \<open>
  C7 (\<open>try\<close> intercepts errors only). Let the try block give \<open>result\<close> in state
  \<open>s1\<close>. If \<open>result\<close> is a Return, a Break or a Continue, the statement gives it back
  unchanged in \<open>s1\<close> (the catch block does not occur: it is not evaluated). If it is an
  Error, the catch block is evaluated in a new environment, a child of the environment of
  the statement, whose store binds the catch identifier (when there is one) to the
  payload of the error and nothing else, and the statement gives what the catch block
  gives. If the try block completes normally, so does the statement.
\<close>

theorem try_catch:
  assumes "try_block env s = Some (result, s1)"
  shows "AstStatementTry_eval try_block catch_identifier catch_block env s =
    (case result of
       None \<Rightarrow> Some (None, s1)
     | Some (Err e) \<Rightarrow>
         catch_block (length (environments s1))
           (s1\<lparr>environments := environments s1 @
              [Environment (Some env)
                 (case catch_identifier of None \<Rightarrow> [] | Some name \<Rightarrow> [(name, payload e)])]\<rparr>)
     | Some c \<Rightarrow> Some (Some c, s1))"
  using assms
  by (auto simp: AstStatementTry_eval_def Environment_new_def Environment_let_def environment_at_def
       split: option.splits control.splits)

lemma error_block_result:
  "error_block 1 start_state =
     Some (Some (Err (Error None 22 [])),
           start_state\<lparr>objects := objects start_state @ [String ''boom'' (Some STRING_META)],
                        environments := environments start_state @ [Environment (Some 1) []]\<rparr>)"
  by (simp add: error_block_def AstBlock_eval_def AstStatementError_eval_def string_literal_def
      AstExpressionString_eval_def Environment_new_def new_object_def start_state_def)

lemma return_1_block_result:
  "return_1_block 1 start_state =
     Some (Some (Return 22),
           start_state\<lparr>objects := objects start_state @ [Number (Finite 1) (Some NUMBER_META)],
                        environments := environments start_state @ [Environment (Some 1) []]\<rparr>)"
  by (simp add: return_1_block_def AstBlock_eval_def AstStatementReturn_eval_def number_literal_def
      AstExpressionNumber_eval_def Environment_new_def new_object_def start_state_def)

lemma empty_block_result:
  "empty_block 1 start_state =
     Some (None, start_state\<lparr>environments := environments start_state @ [Environment (Some 1) []]\<rparr>)"
  by (simp add: empty_block_def AstBlock_eval_def Environment_new_def)

theorem try_catch_witness:
  "AstStatementTry_eval error_block (Some ''e'') return_e_block 1 start_state =
     Some (Some (Return 22),
           start_state\<lparr>objects := objects start_state @ [String ''boom'' (Some STRING_META)],
                        environments := environments start_state @
                          [Environment (Some 1) [], Environment (Some 1) [(''e'', 22)],
                           Environment (Some 3) []]\<rparr>)
   \<and> AstStatementTry_eval return_1_block (Some ''e'') diverges 1 start_state =
     Some (Some (Return 22),
           start_state\<lparr>objects := objects start_state @ [Number (Finite 1) (Some NUMBER_META)],
                        environments := environments start_state @ [Environment (Some 1) []]\<rparr>)
   \<and> AstStatementTry_eval empty_block None diverges 1 start_state =
     Some (None, start_state\<lparr>environments := environments start_state @ [Environment (Some 1) []]\<rparr>)"
proof -
  have "return_e_block 3
          (start_state\<lparr>objects := objects start_state @ [String ''boom'' (Some STRING_META)],
                       environments := environments start_state @
                         [Environment (Some 1) [], Environment (Some 1) [(''e'', 22)]]\<rparr>) =
        Some (Some (Return 22),
           start_state\<lparr>objects := objects start_state @ [String ''boom'' (Some STRING_META)],
                        environments := environments start_state @
                          [Environment (Some 1) [], Environment (Some 1) [(''e'', 22)],
                           Environment (Some 3) []]\<rparr>)"
    by (simp add: return_e_block_def AstBlock_eval_def AstStatementReturn_eval_def variable_def
        AstExpressionIdentifier_eval_def Environment_new_def start_state_def
        Environment_get.simps environment_at_def)
  with try_catch [where try_block = error_block and env = 1 and s = start_state
        and catch_identifier = "Some ''e''" and catch_block = return_e_block,
        OF error_block_result]
    try_catch [where try_block = return_1_block and env = 1 and s = start_state
        and catch_identifier = "Some ''e''" and catch_block = diverges,
        OF return_1_block_result]
    try_catch [where try_block = empty_block and env = 1 and s = start_state
        and catch_identifier = None and catch_block = diverges,
        OF empty_block_result]
  show ?thesis by (simp add: start_state_def eval_nat_numeral)
qed

subsection \<open>The stringifier of numbers\<close>

text \<open>
  C4 (a printed number denotes the number). The loop that removes trailing zeros does
  not stop at an exponent: from \<open>1e+20\<close>, which is Python's \<open>str\<close> of the float
  \<open>10^20\<close>, it makes \<open>1e+2\<close>, which denotes 100. A fraction is trimmed as intended.
\<close>

theorem exponent_zeros_trimmed:
  "trim_number ''1e+20'' = Inr ''1e+2''
   \<and> denoted ''1e+20'' = Some (10 ^ 20) \<and> denoted ''1e+2'' = Some 100
   \<and> trim_number ''100.0'' = Inr ''100'' \<and> trim_number ''2.50'' = Inr ''2.5''"
  by code_simp

subsection \<open>Division and remainder\<close>

lemma zero_divisor:
  assumes "binary_operands lhs rhs env s = Some (Inr (la, ra), s1)"
    and "value_at s1 la = Some (Number x m)"
    and "value_at s1 ra = Some (Number (Finite 0) m')"
  shows "AstExpressionDiv_eval h loc lhs rhs env s =
           Some (apfst Inl (Error_new loc ''division by zero'' s1))"
    and "AstExpressionRem_eval loc lhs rhs env s =
           Some (apfst Inl (Error_new loc ''remainder with divisor zero'' s1))"
  using assms by (simp_all add: AstExpressionDiv_eval_def AstExpressionRem_eval_def)

lemma math_fmod_is_c_fmod:
  "math_fmod x y = Some r \<Longrightarrow> r = c_fmod x y"
  by (cases x; cases y) (auto split: if_splits)

text \<open>
  C5 (remainder follows C's \<open>fmod\<close>). \<open>math.fmod\<close> raises \<open>ValueError\<close> for an
  infinite dividend, where C's \<open>fmod\<close> gives NaN, and nothing in
  \<open>AstExpressionRem.eval\<close> catches it: \<open>Inf % 1\<close> gives neither a value nor an
  \<open>Error\<close>.
\<close>

theorem remainder_of_infinity:
  "AstExpressionRem_eval None (variable ''Inf'') (number_literal 1) 1 start_state = None
   \<and> c_fmod PosInf (Finite 1) = NaN"
  by code_simp


subsection \<open>The \<open>for\<close> statement over a number\<close>

lemma float_of_int_exact: "\<bar>i\<bar> < 2 ^ 53 \<Longrightarrow> float_of_int i = Some (Finite (of_int i))"
proof -
  assume "\<bar>i\<bar> < 2 ^ 53"
  then have "bitlen \<bar>i\<bar> \<le> 53"
    using bitlen_le_iff_power [of "\<bar>i\<bar>" 53] by simp
  then show ?thesis by (simp add: float_of_int_def Let_def)
qed

text \<open>
  \<open>bind_number\<close> binds the induction variable, in the loop environment, to a new
  Number holding the integer.
\<close>

lemma bind_number_binds:
  assumes "environment_at s loop_env = Some e" and "\<bar>i\<bar> < 2 ^ 53"
  shows "bind_number k i loop_env s =
    Some (s\<lparr>objects := objects s @ [Number (Finite (of_int i)) (Some NUMBER_META)],
            environments := (environments s)[loop_env :=
              Environment (outer e) (dict_set k (length (objects s)) (env_store e))]\<rparr>)"
  using assms
  by (auto simp: bind_number_def float_of_int_exact Number_new_def new_object_def
      Environment_let_def environment_at_def split: if_splits)

text \<open>
  C3 (iteration over a number), as the code has it. Let the collection evaluate to a
  Number \<open>x\<close> that has no \<open>next\<close> metafunction, with one induction variable and no
  reference binding; \<open>s3\<close> is the state with the copy of the number and the loop
  environment. If \<open>x\<close> is an integer, the statement is the loop over
  \<open>0, 1, ..., x - 1\<close> in this order, each bound to the induction variable as a new
  Number before the block runs (until the block returns, breaks or fails); for a
  negative integer this list is empty and the statement completes normally without
  running the block. If \<open>x\<close> is not an integer (a fraction, NaN or an infinity), the
  statement gives an error.
\<close>

theorem for_over_number:
  assumes "collection env s = Some (Inr a, s1)"
    and "value_at s1 a = Some (Number x m)"
    and "s3 = s1\<lparr>objects := objects s1 @ [Number x m],
                   environments := environments s1 @ [Environment (Some env) []]\<rparr>"
    and "metafunction s3 (Number x m) (String ''next'' None) = Some None"
  shows "AstStatementFor_eval h fs loc k None False False collection block env s =
     (if is_integer x
      then for_each (bind_number k) block (length (environments s1)) (map int [0..<nat (int_of x)]) s3
      else for_error loc
             (''attempted iteration over non-integer number '' @ quote (value_str h s3 (Number x m))) s3)"
  using assms
  by (simp add: AstStatementFor_eval_def copy_def new_object_def Environment_new_def value_at_def
      nth_append)

theorem for_over_number_witness:
  "AstStatementFor_eval some_host no_functions None ''k'' None False False
      (number_literal 3) push_k_block 1 vector_state
     = for_each (bind_number ''k'') push_k_block 2 [0, 1, 2] (loop_state 3)
   \<and> seen ''v'' [let_empty_v, for_in ''k'' (number_literal 3) [method_call ''v'' ''push'' [variable ''k'']]]
       = Some (numbers [0, 1, 2])
   \<and> AstStatementFor_eval some_host no_functions None ''k'' None False False
      (number_literal (-3)) diverges 1 vector_state
     = Some (None, loop_state (-3))
   \<and> AstStatementFor_eval some_host no_functions None ''k'' None False False
      (number_literal (5/2)) diverges 1 vector_state
     = for_error None (''attempted iteration over non-integer number '' @ quote ''?'')
         (loop_state (5/2))"
proof -
  let ?s1 = "\<lambda>q. snd (new_object (Number (Finite q) (Some NUMBER_META)) vector_state)"
  have a: "number_literal q 1 vector_state = Some (Inr (length (objects vector_state)), ?s1 q)" for q
    by (simp add: number_literal_def AstExpressionNumber_eval_def new_object_def)
  have b: "value_at (?s1 q) (length (objects vector_state)) = Some (Number (Finite q) (Some NUMBER_META))"
    for q
    by (simp add: new_object_def value_at_def)
  have s3: "loop_state q = (?s1 q)\<lparr>objects := objects (?s1 q) @ [Number (Finite q) (Some NUMBER_META)],
                   environments := environments (?s1 q) @ [Environment (Some 1) []]\<rparr>" for q
    by (simp add: loop_state_def new_object_def)
  have c: "metafunction (loop_state q) (Number (Finite q) (Some NUMBER_META)) (String ''next'' None)
             = Some None" for q
    unfolding loop_state_def vector_state_def by code_simp
  have d: "length (environments (?s1 q)) = 2" for q
    unfolding vector_state_def by code_simp
  have e: "seen ''v'' [let_empty_v, for_in ''k'' (number_literal 3) [method_call ''v'' ''push'' [variable ''k'']]]
       = Some (numbers [0, 1, 2])"
    by code_simp
  have f: "map int [0..<nat (int_of (Finite 3))] = [0, 1, 2]" "is_integer (Finite 3)"
     "is_integer (Finite (-3))" "map int [0..<nat (int_of (Finite (-3)))] = []"
     "\<not> is_integer (Finite (5/2))"
    by code_simp+
  have A: "AstStatementFor_eval some_host no_functions None ''k'' None False False
      (number_literal 3) push_k_block 1 vector_state
     = for_each (bind_number ''k'') push_k_block 2 [0, 1, 2] (loop_state 3)"
    using for_over_number [where collection = "number_literal 3" and env = 1 and s = vector_state
        and h = some_host and fs = no_functions and loc = None and k = "''k''"
        and block = push_k_block, OF a b s3 c]
    by (simp only: f d if_True)
  have B: "AstStatementFor_eval some_host no_functions None ''k'' None False False
      (number_literal (-3)) diverges 1 vector_state = Some (None, loop_state (-3))"
    using for_over_number [where collection = "number_literal (-3)" and env = 1 and s = vector_state
        and h = some_host and fs = no_functions and loc = None and k = "''k''"
        and block = diverges, OF a b s3 c]
    by (simp only: f d if_True for_each.simps)
  have C: "AstStatementFor_eval some_host no_functions None ''k'' None False False
      (number_literal (5/2)) diverges 1 vector_state
     = for_error None (''attempted iteration over non-integer number '' @ quote ''?'')
         (loop_state (5/2))"
    using for_over_number [where collection = "number_literal (5/2)" and env = 1 and s = vector_state
        and h = some_host and fs = no_functions and loc = None and k = "''k''"
        and block = diverges, OF a b s3 c]
    by (simp only: f if_False some_host_def host.simps)
  show ?thesis
    using A B C e by blast
qed

text \<open>
  The claim as it is written fails for a negative integer: \<open>for k in -3 { error "boom"; }\<close>
  completes normally; the block, which would fail, does not run.
\<close>

theorem negative_count_counterexample:
  "map_option fst (run [AstStatementFor_eval some_host no_functions None ''k'' None False False
      (number_literal (-3)) error_block]) = Some None"
  by code_simp


subsection \<open>Frames of the copy\<close>

lemma add_use_frame:
  assumes "add_use d s = Some s'"
  shows "map body (shareds s') = map body (shareds s)" "objects s' = objects s"
    "environments s' = environments s"
  using assms
  by (auto simp: add_use_def shared_at_def set_shared_def map_update list_update_same_conv
      split: if_splits)

lemma copy_frame:
  assumes "copy a s = Some (c, s')"
  shows "map body (shareds s') = map body (shareds s)"
    and "\<exists>vs. objects s' = objects s @ vs"
    and "environments s' = environments s"
  using assms
  by (auto simp: copy_def new_object_def value_at_def dest: add_use_frame
      split: if_splits val.splits Option.bind_splits)

lemma value_at_append:
  "value_at s a = Some v \<Longrightarrow> objects s' = objects s @ vs \<Longrightarrow> value_at s' a = Some v"
  by (auto simp: value_at_def nth_append split: if_splits)

subsection \<open>Assignment into a metamap\<close>

text \<open>
  C9 (metamaps are immutable under assignment). Let the target of an assignment
  (\<open>M[k] = v\<close>, \<open>M.k = v\<close>, \<open>M::k = v\<close>) be a metamap, or let the target of a dot
  assignment be a reference to a metamap; let the right-hand side evaluate to a value,
  in state \<open>s2\<close>, and \<open>s3\<close> be the state with the copy of that value. Then the
  statement gives an error, in the state \<open>s3\<close> extended by the message of the error;
  every shared datum has the contents it had in \<open>s2\<close>, and every object of \<open>s2\<close> is
  as it was: the entries of the metamap are unchanged. The metamap is any one: one of a
  fundamental type or one made by a \<open>type\<close> expression.
\<close>

theorem metamap_assignment:
  assumes t: "assignment_target loc lhs env s = Some (Inr (InValue store field), s1)"
    and r: "rhs_expression env s1 = Some (Inr rhs, s2)"
    and c: "copy rhs s2 = Some (c, s3)"
    and m: "value_at s2 store = Some (MetaMap d name) \<or>
            (is_dot lhs \<and> (\<exists>r m. value_at s2 store = Some (Reference r m) \<and>
                                 value_at s2 r = Some (MetaMap d name)))"
  shows "AstStatementAssignment_eval h loc lhs rhs_expression env s =
           Some (Some (Err (Error loc (length (objects s3)) [])),
                 s3\<lparr>objects := objects s3 @
                   [String (''attempted to modify metamap '' @ value_str h s3 (MetaMap d name))
                      (Some STRING_META)]\<rparr>)
         \<and> map body (shareds s3) = map body (shareds s2)
         \<and> take (length (objects s2)) (objects s3) = objects s2"
proof -
  from copy_frame [OF c] obtain vs where f: "map body (shareds s3) = map body (shareds s2)"
    "objects s3 = objects s2 @ vs" by blast
  from m show ?thesis
  proof
    assume a: "value_at s2 store = Some (MetaMap d name)"
    then have "value_at s3 store = Some (MetaMap d name)"
      using f(2) by (rule value_at_append)
    with a t r c f show ?thesis
      by (simp add: AstStatementAssignment_eval_def setitem_def MetaMap_setitem_def
          Error_new_def String_new_def new_object_def)
  next
    assume "is_dot lhs \<and> (\<exists>r m. value_at s2 store = Some (Reference r m) \<and>
                                 value_at s2 r = Some (MetaMap d name))"
    then obtain r' m' where a: "is_dot lhs" "value_at s2 store = Some (Reference r' m')"
      "value_at s2 r' = Some (MetaMap d name)" by blast
    then have "value_at s3 r' = Some (MetaMap d name)"
      using f(2) value_at_append by blast
    with a t r c f show ?thesis
      by (simp add: AstStatementAssignment_eval_def setitem_def MetaMap_setitem_def
          Error_new_def String_new_def new_object_def)
  qed
qed

theorem metamap_assignment_witness:
  "map_option fst (assign_index ''vector'' 1 2 1 start_state) = Some (Some (Err (Error None 25 [])))
   \<and> map_option fst (assign_dot ''T'' ''a'' 2 1 type_state) = Some (Some (Err (Error None 31 [])))
   \<and> map_option fst (assign_dot ''r'' ''a'' 2 1 type_state) = Some (Some (Err (Error None 31 [])))
   \<and> seen ''T'' (let_type @ [try_only (assign_dot ''T'' ''a'' 2), try_only (assign_dot ''r'' ''a'' 2)])
       = Some (VMap [(String ''a'' (Some STRING_META), VNumber (Finite 1))])"
proof -
  let ?two = "number_literal 2"
  let ?lv = "LhsAccessIndex (variable ''vector'') (number_literal 1)"
  let ?sv1 = "snd (the (assignment_target None ?lv 1 start_state))"
  let ?sv2 = "snd (the (?two 1 ?sv1))"
  let ?sv3 = "snd (the (copy 23 ?sv2))"
  have v: "assignment_target None ?lv 1 start_state =
             Some (Inr (InValue 5 (Number (Finite 1) (Some NUMBER_META))), ?sv1)"
    "?two 1 ?sv1 = Some (Inr 23, ?sv2)" "copy 23 ?sv2 = Some (24, ?sv3)"
    "value_at ?sv2 5 = Some (MetaMap 5 ''vector'')" "length (objects ?sv3) = 25"
    by code_simp+
  let ?lt = "LhsAccessDot (variable ''T'') ''a''"
  let ?st1 = "snd (the (assignment_target None ?lt 1 type_state))"
  let ?st2 = "snd (the (?two 1 ?st1))"
  let ?st3 = "snd (the (copy 29 ?st2))"
  have t: "assignment_target None ?lt 1 type_state = Some (Inr (InValue 26 (String ''a'' None)), ?st1)"
    "?two 1 ?st1 = Some (Inr 29, ?st2)" "copy 29 ?st2 = Some (30, ?st3)"
    "value_at ?st2 26 = Some (MetaMap 9 ''type'')" "length (objects ?st3) = 31"
    by code_simp+
  let ?lr = "LhsAccessDot (variable ''r'') ''a''"
  let ?sr1 = "snd (the (assignment_target None ?lr 1 type_state))"
  let ?sr2 = "snd (the (?two 1 ?sr1))"
  let ?sr3 = "snd (the (copy 29 ?sr2))"
  have r: "assignment_target None ?lr 1 type_state = Some (Inr (InValue 28 (String ''a'' None)), ?sr1)"
    "?two 1 ?sr1 = Some (Inr 29, ?sr2)" "copy 29 ?sr2 = Some (30, ?sr3)"
    "is_dot ?lr" "value_at ?sr2 28 = Some (Reference 26 (Some REFERENCE_META))"
    "value_at ?sr2 26 = Some (MetaMap 9 ''type'')" "length (objects ?sr3) = 31"
    by code_simp+
  have A: "map_option fst (assign_index ''vector'' 1 2 1 start_state) = Some (Some (Err (Error None 25 [])))"
    using metamap_assignment [where h = some_host and lhs = ?lv and rhs_expression = ?two
        and env = 1 and s = start_state and d = 5 and name = "''vector''",
        OF v(1) v(2) v(3) disjI1 [OF v(4)], THEN conjunct1]
    unfolding assign_index_def by (simp only: option.map fst_conv v(5))
  have B: "map_option fst (assign_dot ''T'' ''a'' 2 1 type_state) = Some (Some (Err (Error None 31 [])))"
    using metamap_assignment [where h = some_host and lhs = ?lt and rhs_expression = ?two
        and env = 1 and s = type_state and d = 9 and name = "''type''",
        OF t(1) t(2) t(3) disjI1 [OF t(4)], THEN conjunct1]
    unfolding assign_dot_def by (simp only: option.map fst_conv t(5))
  have "is_dot ?lr \<and> (\<exists>r m. value_at ?sr2 28 = Some (Reference r m) \<and>
          value_at ?sr2 r = Some (MetaMap 9 ''type''))"
    using r(4) r(5) r(6) by blast
  then have C: "map_option fst (assign_dot ''r'' ''a'' 2 1 type_state) = Some (Some (Err (Error None 31 [])))"
    using metamap_assignment [where h = some_host and lhs = ?lr and rhs_expression = ?two
        and env = 1 and s = type_state and d = 9 and name = "''type''",
        OF r(1) r(2) r(3) disjI2, THEN conjunct1]
    unfolding assign_dot_def by (simp only: option.map fst_conv r(7))
  have D: "seen ''T'' (let_type @ [try_only (assign_dot ''T'' ''a'' 2), try_only (assign_dot ''r'' ''a'' 2)])
       = Some (VMap [(String ''a'' (Some STRING_META), VNumber (Finite 1))])"
    by code_simp
  show ?thesis using A B C D by blast
qed


subsection \<open>What the copies and the copy-on-write step leave as it was\<close>




lemma changes_kept: "changes {} {} s s' \<Longrightarrow> kept s s'"
  unfolding changes_def kept_def
  by (auto intro!: nth_equalityI)




lemma changes_lengths:
  "changes A B s s' \<Longrightarrow> length (objects s) \<le> length (objects s') \<and> length (shareds s) \<le> length (shareds s')"
  by (simp add: changes_def)














































































lemma map_data_bodies:
  assumes "map body (shareds s') = map body (shareds s)"
  shows "map_data s' d = map_data s d"
proof -
  from assms have l: "length (shareds s') = length (shareds s)" by (metis length_map)
  show ?thesis
  proof (cases "d < length (shareds s)")
    case True
    with l assms have "body (shareds s' ! d) = body (shareds s ! d)" by (metis nth_map)
    with True l show ?thesis by (simp add: map_data_def shared_at_def)
  next
    case False
    with l show ?thesis by (simp add: map_data_def shared_at_def)
  qed
qed

lemma metafunction_extend:
  assumes "metafunction s v name = Some r" and "objects s' = objects s @ vs"
    and "map body (shareds s') = map body (shareds s)"
  shows "metafunction s' v name = Some r"
proof (cases "meta v")
  case None
  with assms(1) show ?thesis by (simp add: metafunction_def)
next
  case (Some m)
  with assms(1) obtain mv d kvs where a: "value_at s m = Some mv" "data_of mv = Some d"
    "map_data s d = Some kvs"
    by (auto simp: metafunction_def split: Option.bind_splits)
  from a(1) assms(2) have m': "value_at s' m = Some mv" by (rule value_at_append)
  from a(3) have d': "map_data s' d = Some kvs" by (simp add: map_data_bodies [OF assms(3)])
  show ?thesis
  proof (cases "items_get name kvs")
    case None
    with assms(1) Some a m' d' show ?thesis by (simp add: metafunction_def)
  next
    case (Some f)
    with assms(1) \<open>meta v = Some m\<close> a obtain fv where f: "value_at s f = Some fv"
      by (auto simp: metafunction_def split: Option.bind_splits)
    from f assms(2) have "value_at s' f = Some fv" by (rule value_at_append)
    with assms(1) Some \<open>meta v = Some m\<close> a m' d' f show ?thesis
      by (simp add: metafunction_def)
  qed
qed


lemma for_each_drop:
  "i \<le> length xs \<Longrightarrow>
   for_each binding block loop_env (drop i xs) s =
   visit_captured binding block loop_env xs i (length xs - i) s"
proof (induction "length xs - i" arbitrary: i s)
  case 0
  then show ?case by simp
next
  case (Suc n)
  then have i: "i < length xs" by simp
  then have d: "drop i xs = xs ! i # drop (Suc i) xs" by (simp add: Cons_nth_drop_Suc)
  from Suc(2) have n: "length xs - i = Suc n" "n = length xs - Suc i" by simp_all
  have "Suc i \<le> length xs" using i by simp
  from Suc(1) [OF n(2) this]
  have IH: "for_each binding block loop_env (drop (Suc i) xs) t =
            visit_captured binding block loop_env xs (Suc i) n t" for t
    by (simp add: n(2))
  show ?case unfolding d n(1) by (simp add: IH cong: option.case_cong)
qed

lemma for_each_captured:
  "for_each binding block loop_env xs s = visit_captured binding block loop_env xs 0 (length xs) s"
  using for_each_drop [of 0 xs] by simp
















subsection \<open>Copy-on-write\<close>



subsection \<open>The loop over a vector\<close>

text \<open>
  C6 (iteration faithfulness). Let the collection of \<open>for x in V\<close> (also \<open>for x.& in V\<close>)
  evaluate to a vector \<open>V\<close> that has no \<open>next\<close> metafunction, and let \<open>xs\<close> be the elements
  of \<open>V\<close> at that moment, before the block first runs. Then, for every block, the
  statement binds \<open>x\<close> to the elements of \<open>xs\<close> at the indices 0, 1, ..., \<open>length xs - 1\<close>
  in this order (a copy of each, or a reference to it), running the block after each
  binding and stopping early only when the block returns, breaks or fails. The block
  is any block: what it does to \<open>V\<close> (a push, a pop, an assignment of an element) does
  not change the sequence \<open>xs\<close> that the loop goes through.
\<close>

theorem for_over_vector:
  assumes c: "collection_expression env s = Some (Inr V, s1)"
    and V: "value_at s1 V = Some (Vector d m)"
    and xs: "shared_at s1 d = Some (Shared (SharedVectorData xs) u)"
    and n: "metafunction s1 (Vector d m) (String ''next'' None) = Some None"
  shows "elements s1 V = Some xs \<and>
         AstStatementFor_eval h fs loc x None x_is_reference v_is_reference collection_expression block env s =
         visit_captured (bind_element x x_is_reference) block (length (environments s1)) xs 0 (length xs)
           (snd (Environment_new (Some env) (snd (the (copy V s1)))))"
proof
  show "elements s1 V = Some xs"
    using V xs by (simp add: elements_def vector_data_def)
next
  define s2 where "s2 = snd (new_object (Vector d m) (set_shared d (Shared (SharedVectorData xs) (u + 1)) s1))"
  define s3 where "s3 = snd (Environment_new (Some env) s2)"
  have cp: "copy V s1 = Some (length (objects s1), s2)"
    using V xs by (simp add: copy_def add_use_def new_object_def set_shared_def s2_def)
  have o: "objects s3 = objects s1 @ [Vector d m]"
    by (simp add: s3_def s2_def Environment_new_def new_object_def set_shared_def)
  have d: "d < length (shareds s1)" using xs by (auto simp: shared_at_def split: if_splits)
  have sh: "shareds s3 = (shareds s1)[d := Shared (SharedVectorData xs) (u + 1)]"
    by (simp add: s3_def s2_def Environment_new_def new_object_def set_shared_def)
  have b: "map body (shareds s3) = map body (shareds s1)"
    using xs d unfolding sh
    by (auto simp: shared_at_def map_update list_update_same_conv split: if_splits)
  have v3: "value_at s3 (length (objects s1)) = Some (Vector d m)"
    by (simp add: value_at_def o)
  have n3: "metafunction s3 (Vector d m) (String ''next'' None) = Some None"
    using n o b by (rule metafunction_extend)
  have x3: "vector_data s3 d = Some xs"
    using d by (simp add: vector_data_def shared_at_def sh)
  have e: "Environment_new (Some env) s2 = (length (environments s1), s3)"
    by (simp add: s3_def s2_def Environment_new_def new_object_def set_shared_def)
  show "AstStatementFor_eval h fs loc x None x_is_reference v_is_reference collection_expression block env s =
         visit_captured (bind_element x x_is_reference) block (length (environments s1)) xs 0 (length xs)
           (snd (Environment_new (Some env) (snd (the (copy V s1)))))"
    using c cp e v3 n3 x3 by (simp add: AstStatementFor_eval_def for_each_captured)
qed

theorem for_over_vector_witness:
  "elements pair_state 27 = Some [23, 25]
   \<and> for_in ''x'' (variable ''v'') [method_call ''v'' ''push'' [variable ''x'']] 1 pair_state =
       visit_captured (bind_element ''x'' False)
         (AstBlock_eval [method_call ''v'' ''push'' [variable ''x'']])
         (length (environments pair_state)) [23, 25] 0 2
         (snd (Environment_new (Some 1) (snd (the (copy 27 pair_state)))))
   \<and> seen ''log'' (logging_loop (method_call ''v'' ''push'' [variable ''x''])) = Some (numbers [1, 2])
   \<and> seen ''v'' (logging_loop (method_call ''v'' ''push'' [variable ''x''])) = Some (numbers [1, 2, 1, 2])
   \<and> seen ''log'' (logging_loop (method_call ''v'' ''pop'' [])) = Some (numbers [1, 2])
   \<and> seen ''v'' (logging_loop (method_call ''v'' ''pop'' [])) = Some (numbers [])
   \<and> seen ''log'' (logging_loop (assign_index ''v'' 1 9)) = Some (numbers [1, 2])
   \<and> seen ''v'' (logging_loop (assign_index ''v'' 1 9)) = Some (numbers [1, 9])"
proof -
  have h: "variable ''v'' 1 pair_state = Some (Inr 27, pair_state)"
    "value_at pair_state 27 = Some (Vector 9 (Some VECTOR_META))"
    "shared_at pair_state 9 = Some (Shared (SharedVectorData [23, 25]) 2)"
    "metafunction pair_state (Vector 9 (Some VECTOR_META)) (String ''next'' None) = Some None"
    by code_simp+
  have l: "length [23::nat, 25] = 2" by simp
  note t = for_over_vector [where h = some_host and fs = no_functions and loc = None
      and x = "''x''" and x_is_reference = False and v_is_reference = False
      and block = "AstBlock_eval [method_call ''v'' ''push'' [variable ''x'']]"
      and collection_expression = "variable ''v''" and env = 1 and s = pair_state,
      OF h(1) h(2) h(3) h(4)]
  have A: "elements pair_state 27 = Some [23, 25]" using t by (rule conjunct1)
  have B: "for_in ''x'' (variable ''v'') [method_call ''v'' ''push'' [variable ''x'']] 1 pair_state =
       visit_captured (bind_element ''x'' False)
         (AstBlock_eval [method_call ''v'' ''push'' [variable ''x'']])
         (length (environments pair_state)) [23, 25] 0 2
         (snd (Environment_new (Some 1) (snd (the (copy 27 pair_state)))))"
    using t [THEN conjunct2] unfolding for_in_def l .
  have C: "seen ''log'' (logging_loop (method_call ''v'' ''push'' [variable ''x''])) = Some (numbers [1, 2])"
    "seen ''v'' (logging_loop (method_call ''v'' ''push'' [variable ''x''])) = Some (numbers [1, 2, 1, 2])"
    "seen ''log'' (logging_loop (method_call ''v'' ''pop'' [])) = Some (numbers [1, 2])"
    "seen ''v'' (logging_loop (method_call ''v'' ''pop'' [])) = Some (numbers [])"
    "seen ''log'' (logging_loop (assign_index ''v'' 1 9)) = Some (numbers [1, 2])"
    "seen ''v'' (logging_loop (assign_index ''v'' 1 9)) = Some (numbers [1, 9])"
    by code_simp+
  show ?thesis using A B C by blast
qed

subsection \<open>The arguments of a call\<close>




end
